theory Spec2Isabelle
  imports Complex_Main
begin

section \<open>The document schema\<close>

text \<open>
  The schema module \<^verbatim>\<open>types/documentState.ts\<close> is pure data. Every interface becomes a
  record, every union of string literals a datatype. A field of type \<open>T option\<close> is a
  property that may be missing: \<open>None\<close> stands for a property that is absent or holds
  \<^verbatim>\<open>undefined\<close> (the two read the same and serialise the same). That is every optional
  property (\<^verbatim>\<open>name?: T\<close>), and every property of the six interfaces of which the reducer
  spreads a \<^verbatim>\<open>Partial\<close> over a stored object (\<^verbatim>\<open>DocumentMetadata\<close>, \<^verbatim>\<open>CellStyle\<close>,
  \<^verbatim>\<open>CellData\<close>, \<^verbatim>\<open>GridConfig\<close>, \<^verbatim>\<open>ImageObject\<close>, \<^verbatim>\<open>ChartObject\<close>): a partial object may
  carry any property with the value \<^verbatim>\<open>undefined\<close>, and the spread stores it, also where the
  interface declares the property required.

  An object used as a dictionary (\<^verbatim>\<open>{ [key: string]: T }\<close>) is a map of its own properties.
  A JavaScript \<^verbatim>\<open>number\<close> is a real where the state container only copies it and in the
  sheet count, which is a length; the column conversion of the export service, which
  multiplies, has the doubles it computes with. Property names are kept; where two
  interfaces share a name, or a name is taken in Isabelle, the field carries a prefix
  naming its record.
\<close>

type_synonym number = real

subsection \<open>Metadata\<close>

datatype Theme = Light | Dark

record DocumentPermissions =
  isPublic :: bool
  viewers :: "string list"
  editors :: "string list"
  perm_owner :: string

record DocumentMetadata =
  meta_documentId :: "string option"
  title :: "string option"
  owner :: "string option"
  createdAt :: "string option"
  updatedAt :: "string option"
  theme :: "Theme option"
  sheetCount :: "number option"
  version :: "string option"
  collaborators :: "string list option"
  permissions :: "DocumentPermissions option"

subsection \<open>Cell styles\<close>

datatype BorderLine =
  Line_none | Line_thin | Line_medium | Line_thick | Line_double | Line_dotted | Line_dashed
| Line_dashDot | Line_dashDotDot

record BorderStyle =
  border_style :: BorderLine
  border_color :: "string option"

record CellBorder =
  border_top :: "BorderStyle option"
  border_right :: "BorderStyle option"
  border_bottom :: "BorderStyle option"
  border_left :: "BorderStyle option"
  diagonal :: "BorderStyle option"
  diagonalUp :: "bool option"
  diagonalDown :: "bool option"

datatype HorizontalAlign = H_left | H_center | H_right | H_justify | H_distributed

datatype VerticalAlign = V_top | V_middle | V_bottom | V_justify | V_distributed

datatype VerticalAlignment = VA_top | VA_middle | VA_bottom

record CellAlignment =
  horizontal :: "HorizontalAlign option"
  vertical :: "VerticalAlign option"
  align_wrapText :: "bool option"
  shrinkToFit :: "bool option"
  textRotation :: "number option"

record CellStyle =
  fontFamily :: "string option"
  fontSize :: "number option"
  bold :: "bool option"
  italic :: "bool option"
  underline :: "bool option"
  strikethrough :: "bool option"
  textColor :: "string option"
  backgroundColor :: "string option"
  border :: "CellBorder option"
  alignment :: "CellAlignment option"
  numberFormat :: "string option"
  rotation :: "number option"
  wrapText :: "bool option"
  verticalAlignment :: "VerticalAlignment option"
  indent :: "number option"

subsection \<open>Cell data\<close>

datatype CellValue = V_string string | V_number number | V_boolean bool | V_null

datatype CellType = T_string | T_number | T_boolean | T_date | T_error | T_formula

datatype SparklineType = Spark_line | Spark_column | Spark_winLoss

text \<open>
  \<^verbatim>\<open>SparklineConfig\<close> is declared twice in the schema; TypeScript merges the two
  declarations into one interface with the properties of both.
\<close>

record SparklineConfig =
  spark_type :: SparklineType
  sourceRange :: string
  spark_color :: "string option"
  lineWidth :: "number option"
  showMarkers :: "bool option"
  showHighPoint :: "bool option"
  showLowPoint :: "bool option"
  showFirstPoint :: "bool option"
  showLastPoint :: "bool option"
  showNegativePoints :: "bool option"
  spark_min :: "number option"
  spark_max :: "number option"
  axis :: "bool option"
  spark_dataRange :: string
  negativeColor :: "string option"
  markers :: "bool option"
  highPoint :: "bool option"
  lowPoint :: "bool option"
  firstPoint :: "bool option"
  lastPoint :: "bool option"
  lineWeight :: "number option"

record CellComment =
  comment_text :: string
  comment_author :: string
  comment_timestamp :: string
  resolved :: "bool option"

datatype ValidationType =
  DV_wholeNumber | DV_decimal | DV_list | DV_date | DV_time | DV_textLength | DV_custom

datatype ValidationOperator =
  DV_between | DV_notBetween | DV_equal | DV_notEqual | DV_greaterThan | DV_lessThan
| DV_greaterThanOrEqual | DV_lessThanOrEqual

datatype ErrorStyle = Err_stop | Err_warning | Err_information

record DataValidation =
  validation_type :: ValidationType
  validation_operator :: "ValidationOperator option"
  formula1 :: "string option"
  formula2 :: "string option"
  allowBlank :: "bool option"
  showDropDown :: "bool option"
  showInputMessage :: "bool option"
  inputTitle :: "string option"
  inputMessage :: "string option"
  showErrorMessage :: "bool option"
  errorTitle :: "string option"
  errorMessage :: "string option"
  errorStyle :: "ErrorStyle option"

record MergeSpan =
  span_rows :: number
  span_cols :: number

text \<open>
  \<^verbatim>\<open>CellData\<close> declares \<^verbatim>\<open>value\<close> as required, but the reducer builds cells by spreading a
  \<^verbatim>\<open>Partial<CellData>\<close> over a possibly missing cell, so a stored cell may lack any of its
  properties. \<open>V_null\<close> is the value \<^verbatim>\<open>null\<close>.
\<close>

record CellData =
  cell_value :: "CellValue option"
  formula :: "string option"
  cell_type :: "CellType option"
  style :: "CellStyle option"
  comment :: "CellComment option"
  hyperlink :: "string option"
  validation :: "DataValidation option"
  mergedWith :: "string option"
  isMergeParent :: "bool option"
  mergeSpan :: "MergeSpan option"
  locked :: "bool option"
  hidden :: "bool option"
  sparkline :: "SparklineConfig option"

subsection \<open>Grid configuration\<close>

record GridConfig =
  rows :: "number option"
  columns :: "number option"
  rowSizes :: "(number \<rightharpoonup> number) option"
  columnSizes :: "(number \<rightharpoonup> number) option"
  frozenRows :: "number option"
  frozenColumns :: "number option"
  showGridlines :: "bool option"
  showRowHeaders :: "bool option"
  showColumnHeaders :: "bool option"
  defaultRowHeight :: "number option"
  defaultColumnWidth :: "number option"
  hiddenRows :: "number list option"
  hiddenColumns :: "number list option"

subsection \<open>Images, shapes and charts\<close>

record ImageObject =
  image_id :: "string option"
  src :: "string option"
  image_x :: "number option"
  image_y :: "number option"
  image_width :: "number option"
  image_height :: "number option"
  image_rotation :: "number option"
  image_opacity :: "number option"
  image_layer :: "number option"
  image_locked :: "bool option"
  image_name :: "string option"
  image_anchorCell :: "string option"
  image_moveWithCells :: "bool option"
  image_sizeWithCells :: "bool option"

datatype ShapeType =
  Shape_rectangle | Shape_circle | Shape_ellipse | Shape_line | Shape_arrow | Shape_triangle
| Shape_polygon | Shape_star | Shape_callout

record Point =
  point_x :: number
  point_y :: number

record ShapeObject =
  shape_id :: string
  shape_type :: ShapeType
  shape_x :: number
  shape_y :: number
  shape_width :: number
  shape_height :: number
  fill :: "string option"
  stroke :: "string option"
  strokeWidth :: "number option"
  shape_opacity :: "number option"
  shape_rotation :: number
  shape_layer :: number
  shape_locked :: "bool option"
  shadow :: "bool option"
  shape_text :: "string option"
  textStyle :: "CellStyle option"
  points :: "Point list option"
  cornerRadius :: "number option"
  shape_anchorCell :: "string option"
  shape_moveWithCells :: "bool option"
  shape_sizeWithCells :: "bool option"
  shape_createdAt :: "number option"
  lastModifiedAt :: "number option"
  createdBy :: "string option"
  lastModifiedBy :: "string option"

datatype ChartType =
  Chart_line | Chart_bar | Chart_column | Chart_pie | Chart_scatter | Chart_area | Chart_radar
| Chart_bubble | Chart_combo

datatype LegendPosition = Legend_top | Legend_bottom | Legend_left | Legend_right

record ChartLegend =
  legend_show :: bool
  legend_position :: LegendPosition

record ChartAxis =
  axis_title :: "string option"
  axis_showGridlines :: "bool option"
  axis_min :: "number option"
  axis_max :: "number option"

datatype SeriesType = Series_line | Series_bar | Series_area

record ChartSeries =
  series_name :: string
  series_range :: string
  series_color :: "string option"
  series_type :: "SeriesType option"

record ChartOptions =
  chart_title :: "string option"
  subtitle :: "string option"
  legend :: "ChartLegend option"
  xAxis :: "ChartAxis option"
  yAxis :: "ChartAxis option"
  series :: "ChartSeries list option"
  colors :: "string list option"
  showDataLabels :: "bool option"
  smooth :: "bool option"
  stacked :: "bool option"
  showPercentage :: "bool option"

record ChartObject =
  chart_id :: "string option"
  chartType :: "ChartType option"
  dataRange :: "string option"
  chart_x :: "number option"
  chart_y :: "number option"
  chart_width :: "number option"
  chart_height :: "number option"
  options :: "ChartOptions option"
  chart_layer :: "number option"
  chart_locked :: "bool option"
  chart_anchorCell :: "string option"
  chart_moveWithCells :: "bool option"
  chart_sizeWithCells :: "bool option"

subsection \<open>Links, symbols and conditional formatting\<close>

record CellLink =
  link_cell :: string
  url :: string
  link_text :: "string option"

record CellSymbol =
  symbol_cell :: string
  symbol :: string
  symbol_color :: "string option"
  symbol_size :: "number option"

datatype RuleType =
  Rule_cellValue | Rule_formula | Rule_colorScale | Rule_dataBar | Rule_iconSet
| Rule_topBottom | Rule_aboveAverage | Rule_duplicate | Rule_unique

datatype RuleOperator =
  Rule_equal | Rule_notEqual | Rule_greaterThan | Rule_lessThan | Rule_between
| Rule_notBetween | Rule_contains | Rule_notContains | Rule_beginsWith | Rule_endsWith

datatype StringOrNumber = A_string string | A_number number

record ColorScale =
  minColor :: string
  midColor :: "string option"
  maxColor :: string

record DataBar =
  bar_color :: string
  showValue :: bool

record IconSet =
  icons :: "string list"
  reverse :: "bool option"

record ConditionalFormatRule =
  rule_type :: RuleType
  rule_operator :: "RuleOperator option"
  value1 :: "StringOrNumber option"
  value2 :: "StringOrNumber option"
  rule_formula :: "string option"
  rule_style :: "CellStyle option"
  colorScale :: "ColorScale option"
  dataBar :: "DataBar option"
  iconSet :: "IconSet option"

record ConditionalFormat =
  format_id :: string
  format_range :: string
  rules :: "ConditionalFormatRule list"
  priority :: number
  stopIfTrue :: "bool option"

subsection \<open>Sheets\<close>

datatype SortDirection = Asc | Desc

record SortState =
  sort_column :: string
  direction :: SortDirection
  caseSensitive :: "bool option"

record FilterState =
  filter_column :: string
  criteria :: "string list"
  showBlanks :: "bool option"

record ScrollPosition =
  scroll_x :: number
  scroll_y :: number

record SheetData =
  sheetId :: string
  name :: string
  sheet_color :: "string option"
  visible :: bool
  protected :: "bool option"
  protectionPassword :: "string option"
  cellLocks :: "(string \<rightharpoonup> bool) option"
  grid :: GridConfig
  cells :: "string \<rightharpoonup> CellData"
  images :: "ImageObject list"
  shapes :: "ShapeObject list"
  charts :: "ChartObject list"
  links :: "CellLink list"
  symbols :: "CellSymbol list"
  conditionalFormatting :: "ConditionalFormat list"
  namedRanges :: "(string \<rightharpoonup> string) option"
  sortState :: "SortState option"
  filterState :: "FilterState option"
  zoom :: "number option"
  scrollPosition :: "ScrollPosition option"

subsection \<open>The document\<close>

datatype CalculationMode = Calc_auto | Calc_manual

record Settings =
  autoSave :: bool
  autoSaveInterval :: number
  showFormulaBar :: bool
  calculationMode :: CalculationMode
  r1c1ReferenceStyle :: bool

text \<open>
  The document's version entries take their author from the owner of the metadata.
\<close>

record Version =
  cid :: string
  timestamp :: string
  author :: "string option"
  description :: "string option"

record DocumentState =
  documentId :: string
  metadata :: DocumentMetadata
  sheets :: "SheetData list"
  activeSheetId :: string
  settings :: "Settings option"
  versionHistory :: "Version list option"


section \<open>Actions\<close>

text \<open>
  The update actions carry a \<^verbatim>\<open>Partial<T>\<close>. A property of a partial object is in one of three
  states: the object does not have it, it has it with the value \<^verbatim>\<open>undefined\<close> (which the
  type \<^verbatim>\<open>Partial<T>\<close> admits for every property), or it has it with a value of the
  property's type.
\<close>

datatype 'a property = Absent | Undefined | Value 'a

record CellStyle_Partial =
  p_fontFamily :: "string property"
  p_fontSize :: "number property"
  p_bold :: "bool property"
  p_italic :: "bool property"
  p_underline :: "bool property"
  p_strikethrough :: "bool property"
  p_textColor :: "string property"
  p_backgroundColor :: "string property"
  p_border :: "CellBorder property"
  p_alignment :: "CellAlignment property"
  p_numberFormat :: "string property"
  p_rotation :: "number property"
  p_wrapText :: "bool property"
  p_verticalAlignment :: "VerticalAlignment property"
  p_indent :: "number property"

record CellData_Partial =
  p_cell_value :: "CellValue property"
  p_formula :: "string property"
  p_cell_type :: "CellType property"
  p_style :: "CellStyle property"
  p_comment :: "CellComment property"
  p_hyperlink :: "string property"
  p_validation :: "DataValidation property"
  p_mergedWith :: "string property"
  p_isMergeParent :: "bool property"
  p_mergeSpan :: "MergeSpan property"
  p_locked :: "bool property"
  p_hidden :: "bool property"
  p_sparkline :: "SparklineConfig property"

record DocumentMetadata_Partial =
  p_meta_documentId :: "string property"
  p_title :: "string property"
  p_owner :: "string property"
  p_createdAt :: "string property"
  p_updatedAt :: "string property"
  p_theme :: "Theme property"
  p_sheetCount :: "number property"
  p_version :: "string property"
  p_collaborators :: "string list property"
  p_permissions :: "DocumentPermissions property"

record GridConfig_Partial =
  p_rows :: "number property"
  p_columns :: "number property"
  p_rowSizes :: "(number \<rightharpoonup> number) property"
  p_columnSizes :: "(number \<rightharpoonup> number) property"
  p_frozenRows :: "number property"
  p_frozenColumns :: "number property"
  p_showGridlines :: "bool property"
  p_showRowHeaders :: "bool property"
  p_showColumnHeaders :: "bool property"
  p_defaultRowHeight :: "number property"
  p_defaultColumnWidth :: "number property"
  p_hiddenRows :: "number list property"
  p_hiddenColumns :: "number list property"

record ImageObject_Partial =
  p_image_id :: "string property"
  p_src :: "string property"
  p_image_x :: "number property"
  p_image_y :: "number property"
  p_image_width :: "number property"
  p_image_height :: "number property"
  p_image_rotation :: "number property"
  p_image_opacity :: "number property"
  p_image_layer :: "number property"
  p_image_locked :: "bool property"
  p_image_name :: "string property"
  p_image_anchorCell :: "string property"
  p_image_moveWithCells :: "bool property"
  p_image_sizeWithCells :: "bool property"

record ShapeObject_Partial =
  p_shape_id :: "string property"
  p_shape_type :: "ShapeType property"
  p_shape_x :: "number property"
  p_shape_y :: "number property"
  p_shape_width :: "number property"
  p_shape_height :: "number property"
  p_fill :: "string property"
  p_stroke :: "string property"
  p_strokeWidth :: "number property"
  p_shape_opacity :: "number property"
  p_shape_rotation :: "number property"
  p_shape_layer :: "number property"
  p_shape_locked :: "bool property"
  p_shadow :: "bool property"
  p_shape_text :: "string property"
  p_textStyle :: "CellStyle property"
  p_points :: "Point list property"
  p_cornerRadius :: "number property"
  p_shape_anchorCell :: "string property"
  p_shape_moveWithCells :: "bool property"
  p_shape_sizeWithCells :: "bool property"
  p_shape_createdAt :: "number property"
  p_lastModifiedAt :: "number property"
  p_createdBy :: "string property"
  p_lastModifiedBy :: "string property"

record ChartObject_Partial =
  p_chart_id :: "string property"
  p_chartType :: "ChartType property"
  p_dataRange :: "string property"
  p_chart_x :: "number property"
  p_chart_y :: "number property"
  p_chart_width :: "number property"
  p_chart_height :: "number property"
  p_options :: "ChartOptions property"
  p_chart_layer :: "number property"
  p_chart_locked :: "bool property"
  p_chart_anchorCell :: "string property"
  p_chart_moveWithCells :: "bool property"
  p_chart_sizeWithCells :: "bool property"

text \<open>
  \<^verbatim>\<open>DocumentAction\<close> is a union tagged by \<^verbatim>\<open>type\<close>; the properties of each payload are the
  constructor's arguments, in the order the schema lists them. The entries of the
  \<^verbatim>\<open>cells\<close> object of \<^verbatim>\<open>UPDATE_CELLS\<close> come as the list \<^verbatim>\<open>Object.entries\<close> yields, and the
  \<^verbatim>\<open>null\<close> sparkline of \<^verbatim>\<open>SET_SPARKLINE\<close> is \<open>None\<close>.
\<close>

datatype DocumentAction =
  SET_DOCUMENT DocumentState
| UPDATE_METADATA DocumentMetadata_Partial
| ADD_SHEET SheetData
| REMOVE_SHEET string
| RENAME_SHEET string string
| SET_ACTIVE_SHEET string
| UPDATE_CELL string string CellData_Partial
| UPDATE_CELLS string "(string \<times> CellData_Partial) list"
| SET_CELL_STYLE string string CellStyle_Partial
| ADD_IMAGE string ImageObject
| UPDATE_IMAGE string string ImageObject_Partial
| REMOVE_IMAGE string string
| ADD_SHAPE string ShapeObject
| UPDATE_SHAPE string string ShapeObject_Partial
| REMOVE_SHAPE string string
| ADD_CHART string ChartObject
| UPDATE_CHART string string ChartObject_Partial
| REMOVE_CHART string string
| UPDATE_GRID_CONFIG string GridConfig_Partial
| SET_ROW_SIZE string number number
| SET_COLUMN_SIZE string number number
| ADD_CONDITIONAL_FORMAT string ConditionalFormat
| REMOVE_CONDITIONAL_FORMAT string string
| SET_DATA_VALIDATION string string DataValidation
| SET_SPARKLINE string string "SparklineConfig option"
| PROTECT_SHEET string bool "string option"
| LOCK_CELLS string "string list" bool
| RESTORE_FROM_IPFS DocumentState


section \<open>Object spread\<close>

text \<open>
  \<^verbatim>\<open>{ ...a, ...b }\<close> copies the own properties of \<^verbatim>\<open>a\<close> and then those of \<^verbatim>\<open>b\<close>. A property
  that \<^verbatim>\<open>b\<close> has wins, with whatever value it holds in \<^verbatim>\<open>b\<close>, \<^verbatim>\<open>undefined\<close> included; a
  property that \<^verbatim>\<open>b\<close> does not have keeps what \<^verbatim>\<open>a\<close> holds. \<open>spread\<close> is this rule at one
  property. Spreading \<^verbatim>\<open>undefined\<close> copies nothing: a missing cell or style counts as the
  empty object.
\<close>

definition spread :: "'a option \<Rightarrow> 'a property \<Rightarrow> 'a option" where
  "spread a b = (case b of Absent \<Rightarrow> a | Undefined \<Rightarrow> None | Value v \<Rightarrow> Some v)"

definition emptyCell :: CellData where
  "emptyCell = \<lparr>cell_value = None, formula = None, cell_type = None, style = None,
     comment = None, hyperlink = None, validation = None, mergedWith = None,
     isMergeParent = None, mergeSpan = None, locked = None, hidden = None, sparkline = None\<rparr>"

definition emptyStyle :: CellStyle where
  "emptyStyle = \<lparr>fontFamily = None, fontSize = None, bold = None, italic = None,
     underline = None, strikethrough = None, textColor = None, backgroundColor = None,
     border = None, alignment = None, numberFormat = None, rotation = None, wrapText = None,
     verticalAlignment = None, indent = None\<rparr>"

definition cellOrEmpty :: "CellData option \<Rightarrow> CellData" where
  "cellOrEmpty c = (case c of None \<Rightarrow> emptyCell | Some d \<Rightarrow> d)"

definition styleOrEmpty :: "CellStyle option \<Rightarrow> CellStyle" where
  "styleOrEmpty s = (case s of None \<Rightarrow> emptyStyle | Some t \<Rightarrow> t)"

definition spreadCell :: "CellData \<Rightarrow> CellData_Partial \<Rightarrow> CellData" where
  "spreadCell a b = \<lparr>
     cell_value = spread (cell_value a) (p_cell_value b),
     formula = spread (formula a) (p_formula b),
     cell_type = spread (cell_type a) (p_cell_type b),
     style = spread (style a) (p_style b),
     comment = spread (comment a) (p_comment b),
     hyperlink = spread (hyperlink a) (p_hyperlink b),
     validation = spread (validation a) (p_validation b),
     mergedWith = spread (mergedWith a) (p_mergedWith b),
     isMergeParent = spread (isMergeParent a) (p_isMergeParent b),
     mergeSpan = spread (mergeSpan a) (p_mergeSpan b),
     locked = spread (locked a) (p_locked b),
     hidden = spread (hidden a) (p_hidden b),
     sparkline = spread (sparkline a) (p_sparkline b)\<rparr>"

definition spreadStyle :: "CellStyle \<Rightarrow> CellStyle_Partial \<Rightarrow> CellStyle" where
  "spreadStyle a b = \<lparr>
     fontFamily = spread (fontFamily a) (p_fontFamily b),
     fontSize = spread (fontSize a) (p_fontSize b),
     bold = spread (bold a) (p_bold b),
     italic = spread (italic a) (p_italic b),
     underline = spread (underline a) (p_underline b),
     strikethrough = spread (strikethrough a) (p_strikethrough b),
     textColor = spread (textColor a) (p_textColor b),
     backgroundColor = spread (backgroundColor a) (p_backgroundColor b),
     border = spread (border a) (p_border b),
     alignment = spread (alignment a) (p_alignment b),
     numberFormat = spread (numberFormat a) (p_numberFormat b),
     rotation = spread (rotation a) (p_rotation b),
     wrapText = spread (wrapText a) (p_wrapText b),
     verticalAlignment = spread (verticalAlignment a) (p_verticalAlignment b),
     indent = spread (indent a) (p_indent b)\<rparr>"

definition spreadMetadata :: "DocumentMetadata \<Rightarrow> DocumentMetadata_Partial \<Rightarrow> DocumentMetadata" where
  "spreadMetadata a b = \<lparr>
     meta_documentId = spread (meta_documentId a) (p_meta_documentId b),
     title = spread (title a) (p_title b),
     owner = spread (owner a) (p_owner b),
     createdAt = spread (createdAt a) (p_createdAt b),
     updatedAt = spread (updatedAt a) (p_updatedAt b),
     theme = spread (theme a) (p_theme b),
     sheetCount = spread (sheetCount a) (p_sheetCount b),
     version = spread (version a) (p_version b),
     collaborators = spread (collaborators a) (p_collaborators b),
     permissions = spread (permissions a) (p_permissions b)\<rparr>"

definition spreadGrid :: "GridConfig \<Rightarrow> GridConfig_Partial \<Rightarrow> GridConfig" where
  "spreadGrid a b = \<lparr>
     rows = spread (rows a) (p_rows b),
     columns = spread (columns a) (p_columns b),
     rowSizes = spread (rowSizes a) (p_rowSizes b),
     columnSizes = spread (columnSizes a) (p_columnSizes b),
     frozenRows = spread (frozenRows a) (p_frozenRows b),
     frozenColumns = spread (frozenColumns a) (p_frozenColumns b),
     showGridlines = spread (showGridlines a) (p_showGridlines b),
     showRowHeaders = spread (showRowHeaders a) (p_showRowHeaders b),
     showColumnHeaders = spread (showColumnHeaders a) (p_showColumnHeaders b),
     defaultRowHeight = spread (defaultRowHeight a) (p_defaultRowHeight b),
     defaultColumnWidth = spread (defaultColumnWidth a) (p_defaultColumnWidth b),
     hiddenRows = spread (hiddenRows a) (p_hiddenRows b),
     hiddenColumns = spread (hiddenColumns a) (p_hiddenColumns b)\<rparr>"

definition spreadImage :: "ImageObject \<Rightarrow> ImageObject_Partial \<Rightarrow> ImageObject" where
  "spreadImage a b = \<lparr>
     image_id = spread (image_id a) (p_image_id b),
     src = spread (src a) (p_src b),
     image_x = spread (image_x a) (p_image_x b),
     image_y = spread (image_y a) (p_image_y b),
     image_width = spread (image_width a) (p_image_width b),
     image_height = spread (image_height a) (p_image_height b),
     image_rotation = spread (image_rotation a) (p_image_rotation b),
     image_opacity = spread (image_opacity a) (p_image_opacity b),
     image_layer = spread (image_layer a) (p_image_layer b),
     image_locked = spread (image_locked a) (p_image_locked b),
     image_name = spread (image_name a) (p_image_name b),
     image_anchorCell = spread (image_anchorCell a) (p_image_anchorCell b),
     image_moveWithCells = spread (image_moveWithCells a) (p_image_moveWithCells b),
     image_sizeWithCells = spread (image_sizeWithCells a) (p_image_sizeWithCells b)\<rparr>"

definition spreadChart :: "ChartObject \<Rightarrow> ChartObject_Partial \<Rightarrow> ChartObject" where
  "spreadChart a b = \<lparr>
     chart_id = spread (chart_id a) (p_chart_id b),
     chartType = spread (chartType a) (p_chartType b),
     dataRange = spread (dataRange a) (p_dataRange b),
     chart_x = spread (chart_x a) (p_chart_x b),
     chart_y = spread (chart_y a) (p_chart_y b),
     chart_width = spread (chart_width a) (p_chart_width b),
     chart_height = spread (chart_height a) (p_chart_height b),
     options = spread (options a) (p_options b),
     chart_layer = spread (chart_layer a) (p_chart_layer b),
     chart_locked = spread (chart_locked a) (p_chart_locked b),
     chart_anchorCell = spread (chart_anchorCell a) (p_chart_anchorCell b),
     chart_moveWithCells = spread (chart_moveWithCells a) (p_chart_moveWithCells b),
     chart_sizeWithCells = spread (chart_sizeWithCells a) (p_chart_sizeWithCells b)\<rparr>"


section \<open>The reducer\<close>

text \<open>
  \<^verbatim>\<open>documentReducer(state, action)\<close> reads the clock (\<^verbatim>\<open>new Date().toISOString()\<close>) in most of
  its cases; the model takes the reading as its first argument \<open>now\<close>.

  Every case that addresses one sheet has the same frame:
  \<^verbatim>\<open>
  return {
    ...state,
    sheets: state.sheets.map(sheet =>
      sheet.sheetId === action.payload.sheetId ? { ...sheet, /* the change */ } : sheet),
    metadata: { ...state.metadata, updatedAt: new Date().toISOString() },
  };
  \<close>
  which is \<open>onSheet\<close>, with the change to the sheet as a function.
\<close>

definition onSheet ::
  "string \<Rightarrow> DocumentState \<Rightarrow> string \<Rightarrow> (SheetData \<Rightarrow> SheetData) \<Rightarrow> DocumentState" where
  "onSheet now state sid change = state\<lparr>
     sheets := map (\<lambda>sheet. if sheetId sheet = sid then change sheet else sheet) (sheets state),
     metadata := (metadata state)\<lparr>updatedAt := Some now\<rparr>\<rparr>"

text \<open>\<^verbatim>\<open>filteredSheets[0]?.sheetId || ''\<close>: the first element's id unless missing or empty.\<close>

definition firstSheetIdOrEmpty :: "SheetData list \<Rightarrow> string" where
  "firstSheetIdOrEmpty filteredSheets =
     (case filteredSheets of
        [] \<Rightarrow> ''''
      | s # _ \<Rightarrow> if sheetId s = '''' then '''' else sheetId s)"

fun documentReducer :: "string \<Rightarrow> DocumentState \<Rightarrow> DocumentAction \<Rightarrow> DocumentState" where
  "documentReducer now state (SET_DOCUMENT payload) = payload"
| "documentReducer now state (UPDATE_METADATA payload) =
     state\<lparr>metadata := (spreadMetadata (metadata state) payload)\<lparr>updatedAt := Some now\<rparr>\<rparr>"
| "documentReducer now state (ADD_SHEET payload) =
     state\<lparr>sheets := sheets state @ [payload],
       metadata := (metadata state)\<lparr>
         sheetCount := Some (real (length (sheets state)) + 1),
         updatedAt := Some now\<rparr>\<rparr>"
| "documentReducer now state (REMOVE_SHEET payload) =
     (let filteredSheets = filter (\<lambda>s. sheetId s \<noteq> payload) (sheets state)
      in state\<lparr>sheets := filteredSheets,
           activeSheetId :=
             (if activeSheetId state = payload
              then firstSheetIdOrEmpty filteredSheets
              else activeSheetId state),
           metadata := (metadata state)\<lparr>
             sheetCount := Some (real (length filteredSheets)),
             updatedAt := Some now\<rparr>\<rparr>)"
| "documentReducer now state (RENAME_SHEET sid newName) =
     onSheet now state sid (\<lambda>sheet. sheet\<lparr>name := newName\<rparr>)"
| "documentReducer now state (SET_ACTIVE_SHEET payload) =
     state\<lparr>activeSheetId := payload\<rparr>"
| "documentReducer now state (UPDATE_CELL sid cellKey data) =
     onSheet now state sid (\<lambda>sheet. sheet\<lparr>
       cells := (cells sheet)(cellKey \<mapsto> spreadCell (cellOrEmpty (cells sheet cellKey)) data)\<rparr>)"
| "documentReducer now state (UPDATE_CELLS sid entries) =
     onSheet now state sid (\<lambda>sheet. sheet\<lparr>
       cells := cells sheet ++
         foldl (\<lambda>acc (key, data).
                  if key = ''__proto__'' then acc
                  else acc(key \<mapsto> spreadCell (cellOrEmpty (cells sheet key)) data))
           Map.empty entries\<rparr>)"
| "documentReducer now state (SET_CELL_STYLE sid cellKey newStyle) =
     onSheet now state sid (\<lambda>sheet. sheet\<lparr>
       cells := (cells sheet)(cellKey \<mapsto>
         (cellOrEmpty (cells sheet cellKey))\<lparr>
           style := Some (spreadStyle
             (styleOrEmpty (case cells sheet cellKey of None \<Rightarrow> None | Some c \<Rightarrow> style c))
             newStyle)\<rparr>)\<rparr>)"
| "documentReducer now state (ADD_IMAGE sid newImage) =
     onSheet now state sid (\<lambda>sheet. sheet\<lparr>images := images sheet @ [newImage]\<rparr>)"
| "documentReducer now state (UPDATE_IMAGE sid imageId updates) =
     onSheet now state sid (\<lambda>sheet. sheet\<lparr>
       images := map (\<lambda>img. if image_id img = Some imageId then spreadImage img updates else img)
         (images sheet)\<rparr>)"
| "documentReducer now state (REMOVE_IMAGE sid imageId) =
     onSheet now state sid (\<lambda>sheet. sheet\<lparr>
       images := filter (\<lambda>img. image_id img \<noteq> Some imageId) (images sheet)\<rparr>)"
| "documentReducer now state (ADD_CHART sid newChart) =
     onSheet now state sid (\<lambda>sheet. sheet\<lparr>charts := charts sheet @ [newChart]\<rparr>)"
| "documentReducer now state (UPDATE_CHART sid chartId updates) =
     onSheet now state sid (\<lambda>sheet. sheet\<lparr>
       charts := map (\<lambda>chart. if chart_id chart = Some chartId then spreadChart chart updates else chart)
         (charts sheet)\<rparr>)"
| "documentReducer now state (REMOVE_CHART sid chartId) =
     onSheet now state sid (\<lambda>sheet. sheet\<lparr>
       charts := filter (\<lambda>chart. chart_id chart \<noteq> Some chartId) (charts sheet)\<rparr>)"
| "documentReducer now state (UPDATE_GRID_CONFIG sid config) =
     onSheet now state sid (\<lambda>sheet. sheet\<lparr>grid := spreadGrid (grid sheet) config\<rparr>)"
| "documentReducer now state (SET_ROW_SIZE sid rowIndex newSize) =
     onSheet now state sid (\<lambda>sheet. sheet\<lparr>
       grid := (grid sheet)\<lparr>rowSizes := Some
         ((case rowSizes (grid sheet) of None \<Rightarrow> Map.empty | Some sizes \<Rightarrow> sizes)
            (rowIndex \<mapsto> newSize))\<rparr>\<rparr>)"
| "documentReducer now state (SET_COLUMN_SIZE sid colIndex newSize) =
     onSheet now state sid (\<lambda>sheet. sheet\<lparr>
       grid := (grid sheet)\<lparr>columnSizes := Some
         ((case columnSizes (grid sheet) of None \<Rightarrow> Map.empty | Some sizes \<Rightarrow> sizes)
            (colIndex \<mapsto> newSize))\<rparr>\<rparr>)"
| "documentReducer now state (ADD_CONDITIONAL_FORMAT sid newFormat) =
     onSheet now state sid (\<lambda>sheet. sheet\<lparr>
       conditionalFormatting := conditionalFormatting sheet @ [newFormat]\<rparr>)"
| "documentReducer now state (REMOVE_CONDITIONAL_FORMAT sid formatId) =
     onSheet now state sid (\<lambda>sheet. sheet\<lparr>
       conditionalFormatting := filter (\<lambda>cf. format_id cf \<noteq> formatId) (conditionalFormatting sheet)\<rparr>)"
| "documentReducer now state (SET_DATA_VALIDATION sid cellKey newValidation) =
     onSheet now state sid (\<lambda>sheet. sheet\<lparr>
       cells := (cells sheet)(cellKey \<mapsto>
         (cellOrEmpty (cells sheet cellKey))\<lparr>validation := Some newValidation\<rparr>)\<rparr>)"
| "documentReducer now state (SET_SPARKLINE sid cellKey newSparkline) =
     onSheet now state sid (\<lambda>sheet. sheet\<lparr>
       cells := (cells sheet)(cellKey \<mapsto>
         (cellOrEmpty (cells sheet cellKey))\<lparr>sparkline := newSparkline\<rparr>)\<rparr>)"
| "documentReducer now state (PROTECT_SHEET sid isProtected password) =
     onSheet now state sid (\<lambda>sheet. sheet\<lparr>
       protected := Some isProtected,
       protectionPassword := password\<rparr>)"
| "documentReducer now state (LOCK_CELLS sid cellKeys isLocked) =
     onSheet now state sid (\<lambda>sheet. sheet\<lparr>
       cellLocks := Some
         ((case cellLocks sheet of None \<Rightarrow> Map.empty | Some m \<Rightarrow> m) ++
          foldl (\<lambda>acc cellKey. acc(cellKey \<mapsto> isLocked)) Map.empty cellKeys)\<rparr>)"
| "documentReducer now state (RESTORE_FROM_IPFS payload) = payload"
| "documentReducer now state (ADD_SHAPE sid newShape) = state"
| "documentReducer now state (UPDATE_SHAPE sid shapeId updates) = state"
| "documentReducer now state (REMOVE_SHAPE sid shapeId) = state"

text \<open>
  The last three equations are the \<^verbatim>\<open>default\<close> branch: the \<^verbatim>\<open>switch\<close> has no case for the
  shape actions of the schema.

  A property written as \<^verbatim>\<open>[key]: v\<close> inside an object literal becomes an own property
  of the new object whatever the key is, so the cases that write one cell, one size or
  the locks update the map at the key. \<^verbatim>\<open>UPDATE_CELLS\<close> instead assigns \<^verbatim>\<open>acc[key] = v\<close>, and
  an assignment to the name \<^verbatim>\<open>__proto__\<close> sets the prototype of \<^verbatim>\<open>acc\<close> and adds no
  property: that entry is not copied into the cells. A cell read as \<^verbatim>\<open>sheet.cells[key]\<close>
  at a name that only the prototype has is a function or the prototype object, which
  has no enumerable own property: spreading it copies nothing, as for a missing cell.
\<close>

text \<open>A sequence of dispatches, each with its own reading of the clock.\<close>

fun dispatchAll :: "DocumentState \<Rightarrow> (string \<times> DocumentAction) list \<Rightarrow> DocumentState" where
  "dispatchAll state [] = state"
| "dispatchAll state ((now, action) # rest) = dispatchAll (documentReducer now state action) rest"


section \<open>The provider\<close>

subsection \<open>Initial state\<close>

text \<open>
  \<^verbatim>\<open>createInitialState\<close> reads the clock three times: once as ISO string (\<open>now\<close>) and twice
  as \<^verbatim>\<open>Date.now()\<close> inside the template \<^verbatim>\<open>`doc-${Date.now()}`\<close>; \<open>ms1\<close> and \<open>ms2\<close> are the
  decimal renderings of those two readings.
\<close>

definition createInitialState :: "string \<Rightarrow> string \<Rightarrow> string \<Rightarrow> DocumentState" where
  "createInitialState now ms1 ms2 = \<lparr>
     documentId = ''doc-'' @ ms1,
     metadata = \<lparr>
       meta_documentId = Some (''doc-'' @ ms2),
       title = Some ''Untitled Spreadsheet'',
       owner = Some ''anonymous'',
       createdAt = Some now,
       updatedAt = Some now,
       theme = Some Light,
       sheetCount = Some 1,
       version = Some ''1.0.0'',
       collaborators = None,
       permissions = None\<rparr>,
     sheets = [\<lparr>
       sheetId = ''sheet-1'',
       name = ''Sheet1'',
       sheet_color = None,
       visible = True,
       protected = None,
       protectionPassword = None,
       cellLocks = None,
       grid = \<lparr>
         rows = Some 1000,
         columns = Some 26,
         rowSizes = Some Map.empty,
         columnSizes = Some Map.empty,
         frozenRows = Some 0,
         frozenColumns = Some 0,
         showGridlines = Some True,
         showRowHeaders = Some True,
         showColumnHeaders = Some True,
         defaultRowHeight = Some 24,
         defaultColumnWidth = Some 100,
         hiddenRows = Some [],
         hiddenColumns = Some []\<rparr>,
       cells = Map.empty,
       images = [],
       shapes = [],
       charts = [],
       links = [],
       symbols = [],
       conditionalFormatting = [],
       namedRanges = None,
       sortState = None,
       filterState = None,
       zoom = None,
       scrollPosition = None\<rparr>],
     activeSheetId = ''sheet-1'',
     settings = Some \<lparr>
       autoSave = True,
       autoSaveInterval = 30,
       showFormulaBar = True,
       calculationMode = Calc_auto,
       r1c1ReferenceStyle = False\<rparr>,
     versionHistory = Some []\<rparr>"

subsection \<open>Convenience methods\<close>

text \<open>
  Each convenience method dispatches one action; with the store's state passed
  explicitly it is the reducer at that action.
\<close>

definition updateCell ::
  "string \<Rightarrow> DocumentState \<Rightarrow> string \<Rightarrow> string \<Rightarrow> CellData_Partial \<Rightarrow> DocumentState" where
  "updateCell now state sid cellKey data = documentReducer now state (UPDATE_CELL sid cellKey data)"

definition setCellStyle ::
  "string \<Rightarrow> DocumentState \<Rightarrow> string \<Rightarrow> string \<Rightarrow> CellStyle_Partial \<Rightarrow> DocumentState" where
  "setCellStyle now state sid cellKey newStyle =
     documentReducer now state (SET_CELL_STYLE sid cellKey newStyle)"

definition addImage :: "string \<Rightarrow> DocumentState \<Rightarrow> string \<Rightarrow> ImageObject \<Rightarrow> DocumentState" where
  "addImage now state sid newImage = documentReducer now state (ADD_IMAGE sid newImage)"

definition addChart :: "string \<Rightarrow> DocumentState \<Rightarrow> string \<Rightarrow> ChartObject \<Rightarrow> DocumentState" where
  "addChart now state sid newChart = documentReducer now state (ADD_CHART sid newChart)"

definition updateMetadata :: "string \<Rightarrow> DocumentState \<Rightarrow> DocumentMetadata_Partial \<Rightarrow> DocumentState" where
  "updateMetadata now state payload = documentReducer now state (UPDATE_METADATA payload)"

definition setSparkline ::
  "string \<Rightarrow> DocumentState \<Rightarrow> string \<Rightarrow> string \<Rightarrow> SparklineConfig option \<Rightarrow> DocumentState" where
  "setSparkline now state sid cellKey newSparkline =
     documentReducer now state (SET_SPARKLINE sid cellKey newSparkline)"

definition protectSheet ::
  "string \<Rightarrow> DocumentState \<Rightarrow> string \<Rightarrow> bool \<Rightarrow> string option \<Rightarrow> DocumentState" where
  "protectSheet now state sid isProtected password =
     documentReducer now state (PROTECT_SHEET sid isProtected password)"

definition lockCells :: "string \<Rightarrow> DocumentState \<Rightarrow> string \<Rightarrow> string list \<Rightarrow> bool \<Rightarrow> DocumentState" where
  "lockCells now state sid cellKeys isLocked =
     documentReducer now state (LOCK_CELLS sid cellKeys isLocked)"

subsection \<open>Derived queries\<close>

text \<open>
  \<^verbatim>\<open>
  const sheet = state.sheets.find(s => s.sheetId === sheetId);
  if (!sheet) return false;
  if (sheet.protected) return true; // Entire sheet protected
  return sheet.cellLocks?.[cellKey] || false;
  \<close>
  An optional boolean is truthy exactly when it is present and \<^verbatim>\<open>true\<close>.

  The last line reads a property of the object \<^verbatim>\<open>cellLocks\<close> by name. Reading a property
  first looks among the object's own properties, which are the entries of the map, and
  then in its prototype. \<^verbatim>\<open>cellLocks\<close> is built by an object literal (or by parsing JSON), so
  its prototype is \<^verbatim>\<open>Object.prototype\<close>, whose properties, as ECMAScript defines them, are
  the twelve names of \<open>objectPrototypeNames\<close>: functions, and for \<^verbatim>\<open>__proto__\<close> the prototype
  object itself. Each is truthy, so \<^verbatim>\<open>|| false\<close> returns it as it is. The query therefore
  returns a boolean or a member of the prototype.
\<close>

definition truthy :: "bool option \<Rightarrow> bool" where
  "truthy b = (case b of None \<Rightarrow> False | Some v \<Rightarrow> v)"






definition isSheetProtected :: "DocumentState \<Rightarrow> string \<Rightarrow> bool" where
  "isSheetProtected state sid =
     truthy (case find (\<lambda>s. sheetId s = sid) (sheets state) of
        None \<Rightarrow> None
      | Some sheet \<Rightarrow> protected sheet)"

definition activeSheet :: "DocumentState \<Rightarrow> SheetData option" where
  "activeSheet state = find (\<lambda>s. sheetId s = activeSheetId state) (sheets state)"

subsection \<open>Saving and loading\<close>

text \<open>
  \<^verbatim>\<open>saveToIPFS\<close> and \<^verbatim>\<open>loadFromIPFS\<close> await the storage service and then dispatch. A
  rejected promise is the left summand, the thrown value an \<open>error\<close>. The storage service
  is imported from another module; the two functions take it as their first argument: an
  upload or download is a function of the storage's own state \<open>'w\<close> that returns the
  outcome and the storage's new state. The provider's state is the document together
  with the storage.

  \<^verbatim>\<open>
  const cid = await uploadDocumentToIPFS(state);
  dispatch({ type: 'UPDATE_METADATA', payload: { updatedAt: new Date().toISOString() } });
  const newVersion = { cid, timestamp: new Date().toISOString(), author: state.metadata.owner };
  const updatedState = { ...state, versionHistory: [...(state.versionHistory || []), newVersion] };
  dispatch({ type: 'SET_DOCUMENT', payload: updatedState });
  return cid;
  \<close>
  inside \<^verbatim>\<open>try { ... } catch (error) { console.error(...); throw error; }\<close>. The clock is
  read for the payload of the first dispatch (\<open>t_payload\<close>), for the version entry
  (\<open>t_version\<close>) and by the reducer when it takes the first action (\<open>t_reduce\<close>).
\<close>

datatype error = Error string

type_synonym 'w upload = "DocumentState \<Rightarrow> 'w \<Rightarrow> (error + string) \<times> 'w"

type_synonym 'w download = "string \<Rightarrow> 'w \<Rightarrow> (error + DocumentState) \<times> 'w"

definition noMetadata :: DocumentMetadata_Partial where
  "noMetadata = \<lparr>p_meta_documentId = Absent, p_title = Absent, p_owner = Absent,
     p_createdAt = Absent, p_updatedAt = Absent, p_theme = Absent, p_sheetCount = Absent,
     p_version = Absent, p_collaborators = Absent, p_permissions = Absent\<rparr>"

definition saveToIPFS ::
  "'w upload \<Rightarrow> string \<Rightarrow> string \<Rightarrow> string \<Rightarrow> DocumentState \<times> 'w
     \<Rightarrow> (error + string) \<times> DocumentState \<times> 'w" where
  "saveToIPFS upload t_payload t_version t_reduce provider =
     (case provider of (state, world) \<Rightarrow>
        (case upload state world of
           (Inl err, world') \<Rightarrow> (Inl err, state, world')
         | (Inr newCid, world') \<Rightarrow>
             (let state1 = documentReducer t_reduce state
                    (UPDATE_METADATA (noMetadata\<lparr>p_updatedAt := Value t_payload\<rparr>));
                  newVersion = \<lparr>cid = newCid, timestamp = t_version,
                    author = owner (metadata state), description = None\<rparr>;
                  updatedState = state\<lparr>versionHistory :=
                    Some ((case versionHistory state of None \<Rightarrow> [] | Some history \<Rightarrow> history)
                          @ [newVersion])\<rparr>;
                  state2 = documentReducer t_reduce state1 (SET_DOCUMENT updatedState)
              in (Inr newCid, state2, world'))))"

text \<open>
  \<^verbatim>\<open>
  const loadedState = await loadDocumentFromIPFS(cid);
  dispatch({ type: 'RESTORE_FROM_IPFS', payload: loadedState });
  \<close>
  with the same \<^verbatim>\<open>catch\<close> that logs and rethrows.
\<close>

definition loadFromIPFS ::
  "'w download \<Rightarrow> string \<Rightarrow> string \<Rightarrow> DocumentState \<times> 'w \<Rightarrow> (error + unit) \<times> DocumentState \<times> 'w" where
  "loadFromIPFS download t_reduce wanted provider =
     (case provider of (state, world) \<Rightarrow>
        (case download wanted world of
           (Inl err, world') \<Rightarrow> (Inl err, state, world')
         | (Inr loadedState, world') \<Rightarrow>
             (Inr (), documentReducer t_reduce state (RESTORE_FROM_IPFS loadedState), world')))"

subsection \<open>The storage service\<close>

text \<open>
  Modelled from the spec: the module \<^verbatim>\<open>services/ipfsDocumentService\<close>, which exports
  \<^verbatim>\<open>uploadDocumentToIPFS\<close> and \<^verbatim>\<open>loadDocumentFromIPFS\<close>, is not among the sources. The
  specification describes it as content-addressed storage: the gateway serializes the
  full document, submits it and receives a content identifier, ``an opaque, deterministic
  identifier derived from content bytes''; it fetches the bytes for an identifier and
  deserializes them; the serialized form is ``a JSON-compatible tree matching the
  DocumentState schema exactly''; an operation fails on a network or store error. The
  storage is a map from content identifiers to stored documents (the schema tree standing
  for its bytes) with a flag telling whether the storage answers.
\<close>

record IPFS =
  objects :: "string \<rightharpoonup> DocumentState"
  reachable :: bool

text \<open>
  Modelled from the spec: \<^verbatim>\<open>uploadDocumentToIPFS\<close> (missing, see above). The function
  deriving the identifier from the content is the parameter \<open>contentId\<close>.
\<close>

definition uploadDocumentToIPFS :: "(DocumentState \<Rightarrow> string) \<Rightarrow> IPFS upload" where
  "uploadDocumentToIPFS contentId state ipfs =
     (if reachable ipfs
      then (Inr (contentId state), ipfs\<lparr>objects := (objects ipfs)(contentId state \<mapsto> state)\<rparr>)
      else (Inl (Error ''network error''), ipfs))"

text \<open>Modelled from the spec: \<^verbatim>\<open>loadDocumentFromIPFS\<close> (missing, see above).\<close>

definition loadDocumentFromIPFS :: "IPFS download" where
  "loadDocumentFromIPFS wanted ipfs =
     (if reachable ipfs
      then (case objects ipfs wanted of
              None \<Rightarrow> (Inl (Error ''not found''), ipfs)
            | Some state \<Rightarrow> (Inr state, ipfs))
      else (Inl (Error ''network error''), ipfs))"


section \<open>Export service: column letters\<close>

text \<open>
  The export service turns the letter-coded column of a unified cell into a grid index:
  \<^verbatim>\<open>
  function columnToIndex(column: string): number {
    let result = 0;
    for (let i = 0; i < column.length; i++) {
      result = result * 26 + (column.charCodeAt(i) - 64);
    }
    return result - 1;
  }
  \<close>
  The numbers are IEEE 754 doubles. A character code is an integer, and every product,
  sum and difference of the loop is the exact result rounded to the nearest double (ties
  to the even significand), so every value of the loop is an integer or an infinity: a
  double holds every integer below \<open>2 ^ 53\<close> in magnitude, above that only the integers with
  53 significant bits, and a result beyond the largest double
  \<open>(2 ^ 53 - 1) * 2 ^ 971\<close> is an infinity. An infinity stays one under the operations of
  the loop, which multiply by 26 and add a finite number. A \<open>string\<close> is a list of
  characters with codes below 256, which the letters of a column are.
\<close>

datatype double = Finite int | PlusInfinity | MinusInfinity

text \<open>The number of low bits that a magnitude loses when it is cut to 53 bits.\<close>

function bitsBeyond53 :: "int \<Rightarrow> nat" where
  "bitsBeyond53 m = (if m < 2 ^ 53 then 0 else Suc (bitsBeyond53 (m div 2)))"
  by pat_completeness auto
termination
  by (relation "measure nat") auto

declare bitsBeyond53.simps [simp del]

definition maxDouble :: int where
  "maxDouble = (2 ^ 53 - 1) * 2 ^ 971"

definition roundToDouble :: "int \<Rightarrow> double" where
  "roundToDouble n =
     (let m = \<bar>n\<bar>;
          lost = bitsBeyond53 m;
          q = m div 2 ^ lost;
          r = m mod 2 ^ lost;
          up = (lost > 0 \<and> (r > 2 ^ (lost - 1) \<or> (r = 2 ^ (lost - 1) \<and> odd q)));
          v = (if up then q + 1 else q) * 2 ^ lost
      in if v > maxDouble then (if n < 0 then MinusInfinity else PlusInfinity)
         else Finite (if n < 0 then - v else v))"

definition times26 :: "double \<Rightarrow> double" where
  "times26 x = (case x of Finite n \<Rightarrow> roundToDouble (n * 26) | _ \<Rightarrow> x)"

definition plusInt :: "double \<Rightarrow> int \<Rightarrow> double" where
  "plusInt x k = (case x of Finite n \<Rightarrow> roundToDouble (n + k) | _ \<Rightarrow> x)"

definition charCodeAt :: "char \<Rightarrow> int" where
  "charCodeAt c = int (of_char c)"

fun columnToIndex_loop :: "string \<Rightarrow> double \<Rightarrow> double" where
  "columnToIndex_loop [] result = result"
| "columnToIndex_loop (c # cs) result =
     columnToIndex_loop cs (plusInt (times26 result) (charCodeAt c - 64))"

definition columnToIndex :: "string \<Rightarrow> double" where
  "columnToIndex column = plusInt (columnToIndex_loop column (Finite 0)) (- 1)"

text \<open>
  The specification's reading of a column: every letter has its position in the alphabet
  as value (\<open>A\<close> is 1, \<open>Z\<close> is 26), and a column of \<open>n\<close> letters denotes
  \<open>\<Sum>i. charValue\<^sub>i * 26 ^ (n - 1 - i) - 1\<close>.
\<close>

definition alphabet :: string where
  "alphabet = ''ABCDEFGHIJKLMNOPQRSTUVWXYZ''"

definition isUpperLetter :: "char \<Rightarrow> bool" where
  "isUpperLetter c = (c \<in> set alphabet)"

definition charValue :: "char \<Rightarrow> int" where
  "charValue c = int (length (takeWhile (\<lambda>x. x \<noteq> c) alphabet)) + 1"

definition bijectiveBase26 :: "string \<Rightarrow> int" where
  "bijectiveBase26 column =
     (\<Sum>i<length column. charValue (column ! i) * 26 ^ (length column - 1 - i)) - 1"

text \<open>
  The value of a column read from the left by Horner's rule, in exact integers: what the
  loop computes when nothing is rounded. It links the loop to the sum of the
  specification.
\<close>

fun hornerBase26 :: "string \<Rightarrow> int \<Rightarrow> int" where
  "hornerBase26 [] r = r"
| "hornerBase26 (c # cs) r = hornerBase26 cs (r * 26 + (charCodeAt c - 64))"

section \<open>Reading the claims\<close>

text \<open>
  The predicates below state what the specification's properties speak about. They are
  executable, so that every property can be evaluated on a concrete document.
\<close>

text \<open>The sheet count of the metadata is the length of the sheet list.\<close>

definition sheetCountOk :: "DocumentState \<Rightarrow> bool" where
  "sheetCountOk state = (sheetCount (metadata state) = Some (real (length (sheets state))))"

fun isSheetListAction :: "DocumentAction \<Rightarrow> bool" where
  "isSheetListAction (ADD_SHEET _) = True"
| "isSheetListAction (REMOVE_SHEET _) = True"
| "isSheetListAction _ = False"

text \<open>The active sheet id names one of the sheets, unless there are no sheets.\<close>

definition activeSheetValid :: "DocumentState \<Rightarrow> bool" where
  "activeSheetValid state =
     (sheets state = [] \<or> activeSheetId state \<in> set (map sheetId (sheets state)))"

text \<open>
  The reducer sets no active sheet id that it has checked, except when it removes the
  active sheet. \<open>keepsActiveSheet\<close> singles out the actions under which
  \<open>activeSheetValid\<close> is kept: a replacement document that is valid itself, a
  \<^verbatim>\<open>SET_ACTIVE_SHEET\<close> that names an existing sheet, an \<^verbatim>\<open>ADD_SHEET\<close> to a document that has
  sheets, and every other action.
\<close>

fun keepsActiveSheet :: "DocumentState \<Rightarrow> DocumentAction \<Rightarrow> bool" where
  "keepsActiveSheet state (SET_DOCUMENT payload) = activeSheetValid payload"
| "keepsActiveSheet state (RESTORE_FROM_IPFS payload) = activeSheetValid payload"
| "keepsActiveSheet state (SET_ACTIVE_SHEET payload) =
     (sheets state = [] \<or> payload \<in> set (map sheetId (sheets state)))"
| "keepsActiveSheet state (ADD_SHEET payload) = (sheets state \<noteq> [])"
| "keepsActiveSheet state _ = True"

fun admissible :: "DocumentState \<Rightarrow> (string \<times> DocumentAction) list \<Rightarrow> bool" where
  "admissible state [] = True"
| "admissible state ((now, action) # rest) =
     (keepsActiveSheet state action \<and> admissible (documentReducer now state action) rest)"

text \<open>
  An update or remove action misses its target when no sheet has the sheet id of its
  payload, or when no sheet with that id holds an entity with the entity id of its
  payload. (The id of a stored image or chart is optional, see the schema.)
\<close>

definition noSheet :: "DocumentState \<Rightarrow> string \<Rightarrow> bool" where
  "noSheet state sid = list_all (\<lambda>sheet. sheetId sheet \<noteq> sid) (sheets state)"

definition noEntity ::
  "DocumentState \<Rightarrow> string \<Rightarrow> (SheetData \<Rightarrow> string option list) \<Rightarrow> string \<Rightarrow> bool" where
  "noEntity state sid ids wanted =
     list_all (\<lambda>sheet. sheetId sheet \<noteq> sid \<or> Some wanted \<notin> set (ids sheet)) (sheets state)"

fun missingTarget :: "DocumentState \<Rightarrow> DocumentAction \<Rightarrow> bool" where
  "missingTarget state (REMOVE_SHEET sid) = noSheet state sid"
| "missingTarget state (RENAME_SHEET sid _) = noSheet state sid"
| "missingTarget state (UPDATE_CELL sid _ _) = noSheet state sid"
| "missingTarget state (UPDATE_CELLS sid _) = noSheet state sid"
| "missingTarget state (SET_CELL_STYLE sid _ _) = noSheet state sid"
| "missingTarget state (UPDATE_IMAGE sid imageId _) =
     noEntity state sid (\<lambda>sheet. map image_id (images sheet)) imageId"
| "missingTarget state (REMOVE_IMAGE sid imageId) =
     noEntity state sid (\<lambda>sheet. map image_id (images sheet)) imageId"
| "missingTarget state (UPDATE_SHAPE sid shapeId _) =
     noEntity state sid (\<lambda>sheet. map (\<lambda>shape. Some (shape_id shape)) (shapes sheet)) shapeId"
| "missingTarget state (REMOVE_SHAPE sid shapeId) =
     noEntity state sid (\<lambda>sheet. map (\<lambda>shape. Some (shape_id shape)) (shapes sheet)) shapeId"
| "missingTarget state (UPDATE_CHART sid chartId _) =
     noEntity state sid (\<lambda>sheet. map chart_id (charts sheet)) chartId"
| "missingTarget state (REMOVE_CHART sid chartId) =
     noEntity state sid (\<lambda>sheet. map chart_id (charts sheet)) chartId"
| "missingTarget state (UPDATE_GRID_CONFIG sid _) = noSheet state sid"
| "missingTarget state (SET_ROW_SIZE sid _ _) = noSheet state sid"
| "missingTarget state (SET_COLUMN_SIZE sid _ _) = noSheet state sid"
| "missingTarget state (REMOVE_CONDITIONAL_FORMAT sid formatId) =
     noEntity state sid (\<lambda>sheet. map (\<lambda>cf. Some (format_id cf)) (conditionalFormatting sheet)) formatId"
| "missingTarget state (SET_DATA_VALIDATION sid _ _) = noSheet state sid"
| "missingTarget state (SET_SPARKLINE sid _ _) = noSheet state sid"
| "missingTarget state (PROTECT_SHEET sid _ _) = noSheet state sid"
| "missingTarget state (LOCK_CELLS sid _ _) = noSheet state sid"
| "missingTarget state _ = False"

text \<open>
  What the reducer returns for an action that misses its target: the state with a new
  \<open>updatedAt\<close>; nothing at all changes for a shape action; \<^verbatim>\<open>REMOVE_SHEET\<close> also writes
  the sheet count and reassigns an active sheet id equal to the id it was given.
\<close>

definition touched :: "string \<Rightarrow> DocumentState \<Rightarrow> DocumentState" where
  "touched now state = state\<lparr>metadata := (metadata state)\<lparr>updatedAt := Some now\<rparr>\<rparr>"

fun afterMissingTarget :: "string \<Rightarrow> DocumentState \<Rightarrow> DocumentAction \<Rightarrow> DocumentState" where
  "afterMissingTarget now state (UPDATE_SHAPE _ _ _) = state"
| "afterMissingTarget now state (REMOVE_SHAPE _ _) = state"
| "afterMissingTarget now state (REMOVE_SHEET sid) =
     state\<lparr>activeSheetId :=
         (if activeSheetId state = sid then firstSheetIdOrEmpty (sheets state)
          else activeSheetId state),
       metadata := (metadata state)\<lparr>
         sheetCount := Some (real (length (sheets state))),
         updatedAt := Some now\<rparr>\<rparr>"
| "afterMissingTarget now state _ = touched now state"

subsection \<open>Example documents\<close>

text \<open>
  The documents on which the properties are evaluated: the initial document at a fixed
  time, a second sheet, and the payloads that carry no property.
\<close>

definition initialDocument :: DocumentState where
  "initialDocument = createInitialState ''2024-01-01T00:00:00.000Z'' ''1704067200000'' ''1704067200000''"

definition secondSheet :: SheetData where
  "secondSheet = (hd (sheets initialDocument))\<lparr>sheetId := ''sheet-2'', name := ''Sheet2''\<rparr>"

definition noImageUpdates :: ImageObject_Partial where
  "noImageUpdates = \<lparr>p_image_id = Absent, p_src = Absent, p_image_x = Absent,
     p_image_y = Absent, p_image_width = Absent, p_image_height = Absent,
     p_image_rotation = Absent, p_image_opacity = Absent, p_image_layer = Absent,
     p_image_locked = Absent, p_image_name = Absent, p_image_anchorCell = Absent,
     p_image_moveWithCells = Absent, p_image_sizeWithCells = Absent\<rparr>"

definition noCellData :: CellData_Partial where
  "noCellData = \<lparr>p_cell_value = Absent, p_formula = Absent, p_cell_type = Absent,
     p_style = Absent, p_comment = Absent, p_hyperlink = Absent, p_validation = Absent,
     p_mergedWith = Absent, p_isMergeParent = Absent, p_mergeSpan = Absent, p_locked = Absent,
     p_hidden = Absent, p_sparkline = Absent\<rparr>"

text \<open>The cell \<^verbatim>\<open>{ value: "x", style: { bold: true } }\<close> at A1 of the first sheet.\<close>

definition styledDocument :: DocumentState where
  "styledDocument = documentReducer ''2024-01-01T00:00:01.000Z'' initialDocument
     (UPDATE_CELL ''sheet-1'' ''A1''
        (noCellData\<lparr>p_cell_value := Value (V_string ''x''),
           p_style := Value (emptyStyle\<lparr>bold := Some True\<rparr>)\<rparr>))"


text \<open>The first sheet protected with a stored password.\<close>

definition protectedDocument :: DocumentState where
  "protectedDocument = documentReducer ''2024-01-01T00:00:01.000Z'' initialDocument
     (PROTECT_SHEET ''sheet-1'' True (Some ''5e884898da28''))"

text \<open>A storage that answers and holds nothing, and one that does not answer.\<close>

definition emptyStorage :: IPFS where
  "emptyStorage = \<lparr>objects = Map.empty, reachable = True\<rparr>"

definition offlineStorage :: IPFS where
  "offlineStorage = \<lparr>objects = Map.empty, reachable = False\<rparr>"

definition exampleContentId :: "DocumentState \<Rightarrow> string" where
  "exampleContentId state =
     ''cid-'' @ documentId state @ ''-'' @
     (case updatedAt (metadata state) of
        None \<Rightarrow> []
      | Some stamp \<Rightarrow> stamp)"



section \<open>Properties of the column conversion\<close>

lemma charValue_upper: "isUpperLetter c \<Longrightarrow> charValue c = charCodeAt c - 64"
  unfolding isUpperLetter_def alphabet_def charValue_def charCodeAt_def
  by (elim set_ConsD [elim_format] disjE) simp_all

lemma charValue_range: "isUpperLetter c \<Longrightarrow> 1 \<le> charValue c \<and> charValue c \<le> 26"
  unfolding isUpperLetter_def alphabet_def charValue_def
  by (elim set_ConsD [elim_format] disjE) simp_all

lemma hornerBase26_sum:
  "hornerBase26 cs r =
     r * 26 ^ length cs + (\<Sum>i<length cs. (charCodeAt (cs ! i) - 64) * 26 ^ (length cs - 1 - i))"
proof (induction cs arbitrary: r)
  case Nil
  show ?case by simp
next
  case (Cons c cs)
  have "(\<Sum>i<Suc (length cs). (charCodeAt ((c # cs) ! i) - 64) * 26 ^ (Suc (length cs) - 1 - i)) =
      (charCodeAt c - 64) * 26 ^ length cs +
      (\<Sum>i<length cs. (charCodeAt (cs ! i) - 64) * 26 ^ (length cs - 1 - i))"
    by (simp del: sum.lessThan_Suc add: sum.lessThan_Suc_shift)
  then show ?case
    by (simp del: sum.lessThan_Suc add: Cons.IH distrib_right)
qed

lemma bijectiveBase26_horner:
  assumes "list_all isUpperLetter column"
  shows "bijectiveBase26 column = hornerBase26 column 0 - 1"
proof -
  have "\<And>i. i < length column \<Longrightarrow> charValue (column ! i) = charCodeAt (column ! i) - 64"
    using assms by (simp add: list_all_length charValue_upper)
  then have "(\<Sum>i<length column. charValue (column ! i) * 26 ^ (length column - 1 - i)) =
      (\<Sum>i<length column. (charCodeAt (column ! i) - 64) * 26 ^ (length column - 1 - i))"
    by (intro sum.cong) simp_all
  then show ?thesis
    by (simp add: bijectiveBase26_def hornerBase26_sum)
qed

lemma hornerBase26_bound:
  "list_all isUpperLetter cs \<Longrightarrow> 0 \<le> r \<Longrightarrow> r < 27 ^ k \<Longrightarrow>
     r \<le> hornerBase26 cs r \<and> hornerBase26 cs r < 27 ^ (k + length cs)"
proof (induction cs arbitrary: r k)
  case Nil
  then show ?case by simp
next
  case (Cons c cs)
  from Cons.prems have up: "isUpperLetter c" and rest: "list_all isUpperLetter cs"
    by simp_all
  have v: "1 \<le> charCodeAt c - 64" "charCodeAt c - 64 \<le> 26"
    using charValue_range [OF up] charValue_upper [OF up] by simp_all
  have lo: "0 \<le> r * 26 + (charCodeAt c - 64)"
    using Cons.prems(2) v by simp
  have "r + 1 \<le> 27 ^ k"
    using Cons.prems(3) by simp
  then have "r * 26 + 26 \<le> 27 ^ k * 26"
    by simp
  moreover have "(27::int) ^ k * 26 < 27 ^ Suc k"
    by simp
  ultimately have hi: "r * 26 + (charCodeAt c - 64) < 27 ^ Suc k"
    using v(2) by linarith
  have "r \<le> r * 26 + (charCodeAt c - 64)"
    using Cons.prems(2) v(1) by simp
  with Cons.IH [OF rest lo hi] show ?case
    by simp
qed

lemma bitsBeyond53_small: "m < 2 ^ 53 \<Longrightarrow> bitsBeyond53 m = 0"
  by (simp add: bitsBeyond53.simps)

lemma roundToDouble_exact:
  assumes "\<bar>n\<bar> < 2 ^ 53"
  shows "roundToDouble n = Finite n"
proof -
  have "(2::int) ^ 53 \<le> 2 ^ 971"
    by (intro power_increasing) simp_all
  also have "\<dots> \<le> maxDouble"
    by (simp add: maxDouble_def)
  finally have "\<bar>n\<bar> \<le> maxDouble"
    using assms by simp
  then show ?thesis
    using assms by (simp add: roundToDouble_def bitsBeyond53_small Let_def)
qed

lemma columnToIndex_loop_exact:
  "list_all isUpperLetter cs \<Longrightarrow> 0 \<le> r \<Longrightarrow> hornerBase26 cs r < 2 ^ 53 \<Longrightarrow>
     columnToIndex_loop cs (Finite r) = Finite (hornerBase26 cs r)"
proof (induction cs arbitrary: r)
  case Nil
  then show ?case by simp
next
  case (Cons c cs)
  from Cons.prems have up: "isUpperLetter c" and rest: "list_all isUpperLetter cs"
    by simp_all
  have v: "1 \<le> charCodeAt c - 64"
    using charValue_range [OF up] charValue_upper [OF up] by simp
  let ?next = "r * 26 + (charCodeAt c - 64)"
  have lo: "0 \<le> ?next"
    using Cons.prems(2) v by simp
  have "?next < 27 ^ nat (?next + 1)"
  proof -
    have "?next + 1 \<le> 27 ^ nat (?next + 1)"
      using lo self_le_ge2_pow [of 27 "nat (?next + 1)"] by simp
    then show ?thesis by simp
  qed
  with rest lo have "?next \<le> hornerBase26 cs ?next"
    using hornerBase26_bound by blast
  with Cons.prems(3) have small: "?next < 2 ^ 53"
    by simp
  then have "r * 26 < 2 ^ 53"
    using v by simp
  then have "times26 (Finite r) = Finite (r * 26)"
    using Cons.prems(2) by (simp add: times26_def roundToDouble_exact)
  moreover have "plusInt (Finite (r * 26)) (charCodeAt c - 64) = Finite ?next"
    using small lo by (simp add: plusInt_def roundToDouble_exact)
  moreover have "columnToIndex_loop cs (Finite ?next) = Finite (hornerBase26 cs ?next)"
    using rest lo Cons.prems(3) by (intro Cons.IH) simp_all
  ultimately show ?case
    by simp
qed

text \<open>
  Claim C9, as the code has it. For every non-empty string of at most eleven uppercase
  letters, \<open>columnToIndex\<close> computes the bijective base-26 value
  \<open>\<Sum>i. charValue\<^sub>i * 26 ^ (n - 1 - i) - 1\<close>, where \<open>A\<close> has value 1: no operation of the loop
  rounds, since every value stays below \<open>27 ^ 11\<close>, which is below \<open>2 ^ 53\<close>.
\<close>

theorem columnToIndex_bijective_base26:
  assumes "column \<noteq> []" and "list_all isUpperLetter column" and "length column \<le> 11"
  shows "columnToIndex column =
     Finite ((\<Sum>i<length column. charValue (column ! i) * 26 ^ (length column - 1 - i)) - 1)"
proof -
  have b: "0 \<le> hornerBase26 column 0 \<and> hornerBase26 column 0 < 27 ^ (0 + length column)"
    by (rule hornerBase26_bound [OF assms(2)]) simp_all
  have "(27::int) ^ length column \<le> 27 ^ 11"
    using assms(3) by (intro power_increasing) simp_all
  also have "\<dots> < 2 ^ 53"
    by simp
  finally have small: "hornerBase26 column 0 < 2 ^ 53"
    using b by simp
  then have "columnToIndex_loop column (Finite 0) = Finite (hornerBase26 column 0)"
    using assms(2) by (intro columnToIndex_loop_exact) simp_all
  moreover have "\<bar>hornerBase26 column 0 - 1\<bar> < 2 ^ 53"
    using b small by (auto simp: abs_if)
  then have "plusInt (Finite (hornerBase26 column 0)) (- 1) = Finite (hornerBase26 column 0 - 1)"
    by (simp add: plusInt_def roundToDouble_exact)
  ultimately have "columnToIndex column = Finite (hornerBase26 column 0 - 1)"
    by (simp add: columnToIndex_def)
  then show ?thesis
    using bijectiveBase26_horner [OF assms(2)] by (simp add: bijectiveBase26_def)
qed

text \<open>
  The four columns the specification lists, A, Z, AA and AZ, and the last column of
  eleven letters.
\<close>

theorem columnToIndex_bijective_base26_witness:
  "columnToIndex ''A'' = Finite 0 \<and> bijectiveBase26 ''A'' = 0 \<and>
   columnToIndex ''Z'' = Finite 25 \<and> bijectiveBase26 ''Z'' = 25 \<and>
   columnToIndex ''AA'' = Finite 26 \<and> bijectiveBase26 ''AA'' = 26 \<and>
   columnToIndex ''AZ'' = Finite 51 \<and> bijectiveBase26 ''AZ'' = 51 \<and>
   columnToIndex ''ZZZZZZZZZZZ'' = Finite 3817158266467285 \<and>
   bijectiveBase26 ''ZZZZZZZZZZZ'' = 3817158266467285"
proof -
  have up: "list_all isUpperLetter ''A''" "list_all isUpperLetter ''Z''"
    "list_all isUpperLetter ''AA''" "list_all isUpperLetter ''AZ''"
    "list_all isUpperLetter ''ZZZZZZZZZZZ''"
    by (simp_all add: isUpperLetter_def alphabet_def)
  have ne: "''A'' \<noteq> []" "''Z'' \<noteq> []" "''AA'' \<noteq> []" "''AZ'' \<noteq> []" "''ZZZZZZZZZZZ'' \<noteq> []"
    by simp_all
  have len: "length ''A'' \<le> 11" "length ''Z'' \<le> 11" "length ''AA'' \<le> 11"
    "length ''AZ'' \<le> 11" "length ''ZZZZZZZZZZZ'' \<le> 11"
    by simp_all
  have eq: "columnToIndex ''A'' = Finite (bijectiveBase26 ''A'')"
    "columnToIndex ''Z'' = Finite (bijectiveBase26 ''Z'')"
    "columnToIndex ''AA'' = Finite (bijectiveBase26 ''AA'')"
    "columnToIndex ''AZ'' = Finite (bijectiveBase26 ''AZ'')"
    "columnToIndex ''ZZZZZZZZZZZ'' = Finite (bijectiveBase26 ''ZZZZZZZZZZZ'')"
    unfolding bijectiveBase26_def
    by (rule columnToIndex_bijective_base26 [OF ne(1) up(1) len(1)]
        columnToIndex_bijective_base26 [OF ne(2) up(2) len(2)]
        columnToIndex_bijective_base26 [OF ne(3) up(3) len(3)]
        columnToIndex_bijective_base26 [OF ne(4) up(4) len(4)]
        columnToIndex_bijective_base26 [OF ne(5) up(5) len(5)])+
  have val: "bijectiveBase26 ''A'' = 0" "bijectiveBase26 ''Z'' = 25"
    "bijectiveBase26 ''AA'' = 26" "bijectiveBase26 ''AZ'' = 51"
    "bijectiveBase26 ''ZZZZZZZZZZZ'' = 3817158266467285"
    by (simp_all add: bijectiveBase26_horner [OF up(1)] bijectiveBase26_horner [OF up(2)]
        bijectiveBase26_horner [OF up(3)] bijectiveBase26_horner [OF up(4)]
        bijectiveBase26_horner [OF up(5)] charCodeAt_def)
  show ?thesis
    using eq val by simp
qed

text \<open>
  Against the claim as worded: the column of twelve Z is a non-empty string of uppercase
  letters with the base-26 value 99246114928149461, which no double holds; the products
  and sums of the loop round, and \<open>columnToIndex\<close> returns 99246114928149472.
\<close>

theorem columnToIndex_rounds_twelve_letters:
  "list_all isUpperLetter ''ZZZZZZZZZZZZ'' \<and>
   bijectiveBase26 ''ZZZZZZZZZZZZ'' = 99246114928149461 \<and>
   columnToIndex ''ZZZZZZZZZZZZ'' = Finite 99246114928149472 \<and>
   columnToIndex ''ZZZZZZZZZZZZ'' \<noteq> Finite (bijectiveBase26 ''ZZZZZZZZZZZZ'')"
proof -
  have up: "list_all isUpperLetter ''ZZZZZZZZZZZZ''"
    by (simp add: isUpperLetter_def alphabet_def)
  have exact: "bijectiveBase26 ''ZZZZZZZZZZZZ'' = 99246114928149461"
    by (simp add: bijectiveBase26_horner [OF up] charCodeAt_def)
  have rounded: "columnToIndex ''ZZZZZZZZZZZZ'' = Finite 99246114928149472"
    by code_simp
  show ?thesis
    using up exact rounded by simp
qed


section \<open>Properties of the reducer\<close>

subsection \<open>The frame of the sheet-level cases\<close>

lemma activeSheetId_onSheet: "activeSheetId (onSheet now state sid change) = activeSheetId state"
  by (simp add: onSheet_def)

lemma nth_sheets_onSheet:
  "i < length (sheets state) \<Longrightarrow> sheetId (sheets state ! i) = sid \<Longrightarrow>
     sheets (onSheet now state sid change) ! i = change (sheets state ! i)"
  by (simp add: onSheet_def)

lemma onSheet_unchanged:
  assumes "\<And>sheet. sheet \<in> set (sheets state) \<Longrightarrow> sheetId sheet = sid \<Longrightarrow> change sheet = sheet"
  shows "onSheet now state sid change = touched now state"
proof -
  have "map (\<lambda>sheet. if sheetId sheet = sid then change sheet else sheet) (sheets state) = sheets state"
    using assms by (intro map_idI) simp
  then show ?thesis
    by (simp add: onSheet_def touched_def)
qed

subsection \<open>Sheet count\<close>

lemma sheetCountOk_step:
  "isSheetListAction action \<Longrightarrow> sheetCountOk (documentReducer now state action)"
  by (cases action) (simp_all add: sheetCountOk_def Let_def)

text \<open>
  Claim C3. From any state whose sheet count equals the number of its sheets, every
  finite sequence of \<^verbatim>\<open>ADD_SHEET\<close> and \<^verbatim>\<open>REMOVE_SHEET\<close> actions keeps the two equal after
  every action: the state after the first \<open>k\<close> actions satisfies it, for every \<open>k\<close>.
\<close>

theorem sheetCount_invariant:
  assumes "sheetCountOk state"
    and "list_all (\<lambda>(now, action). isSheetListAction action) actions"
    and "k \<le> length actions"
  shows "sheetCountOk (dispatchAll state (take k actions))"
  using assms
proof (induction actions arbitrary: state k)
  case Nil
  then show ?case by simp
next
  case (Cons step rest)
  obtain now action where step: "step = (now, action)"
    by (cases step)
  show ?case
  proof (cases k)
    case 0
    with Cons.prems(1) show ?thesis by simp
  next
    case (Suc j)
    from Cons.prems(2) step have "isSheetListAction action"
      and rest: "list_all (\<lambda>(now, action). isSheetListAction action) rest"
      by simp_all
    then have ok: "sheetCountOk (documentReducer now state action)"
      by (simp add: sheetCountOk_step)
    from Cons.prems(3) Suc have "j \<le> length rest"
      by simp
    with ok rest have "sheetCountOk (dispatchAll (documentReducer now state action) (take j rest))"
      by (intro Cons.IH)
    with step Suc show ?thesis by simp
  qed
qed

text \<open>
  The initial document, a sheet added, then both sheets removed: the count is right
  after one, two and three actions, and is 1 after the first removal.
\<close>

theorem sheetCount_invariant_witness:
  "sheetCountOk initialDocument \<and>
   sheetCountOk (dispatchAll initialDocument (take 1
     [(''t1'', ADD_SHEET secondSheet), (''t2'', REMOVE_SHEET ''sheet-1''),
      (''t3'', REMOVE_SHEET ''sheet-2'')])) \<and>
   sheetCountOk (dispatchAll initialDocument (take 2
     [(''t1'', ADD_SHEET secondSheet), (''t2'', REMOVE_SHEET ''sheet-1''),
      (''t3'', REMOVE_SHEET ''sheet-2'')])) \<and>
   sheetCountOk (dispatchAll initialDocument (take 3
     [(''t1'', ADD_SHEET secondSheet), (''t2'', REMOVE_SHEET ''sheet-1''),
      (''t3'', REMOVE_SHEET ''sheet-2'')])) \<and>
   sheetCount (metadata (dispatchAll initialDocument
     [(''t1'', ADD_SHEET secondSheet), (''t2'', REMOVE_SHEET ''sheet-1'')])) = Some 1"
proof -
  let ?actions = "[(''t1'', ADD_SHEET secondSheet), (''t2'', REMOVE_SHEET ''sheet-1''),
    (''t3'', REMOVE_SHEET ''sheet-2'')]"
  have start: "sheetCountOk initialDocument"
    by (simp add: sheetCountOk_def initialDocument_def createInitialState_def)
  have kinds: "list_all (\<lambda>(now, action). isSheetListAction action) ?actions"
    by simp
  have "sheetCountOk (dispatchAll initialDocument (take k ?actions))" if "k \<le> 3" for k
    using sheetCount_invariant [OF start kinds, of k] that by simp
  from this [of 1] this [of 2] this [of 3] start show ?thesis
    by (simp add: initialDocument_def createInitialState_def secondSheet_def Let_def)
qed

subsection \<open>Removing a sheet\<close>

text \<open>
  Claim C4. \<^verbatim>\<open>REMOVE_SHEET\<close> removes exactly the sheets whose id is the payload and keeps
  the others in their order. The active sheet id, when it is the removed id, becomes the
  id of the first sheet that remains, or the empty string when none remains; otherwise
  it stays as it is.
\<close>

theorem removeSheet_reassigns_active:
  "sheets (documentReducer now state (REMOVE_SHEET sid)) =
     filter (\<lambda>sheet. sheetId sheet \<noteq> sid) (sheets state) \<and>
   activeSheetId (documentReducer now state (REMOVE_SHEET sid)) =
     (if activeSheetId state = sid
      then (case filter (\<lambda>sheet. sheetId sheet \<noteq> sid) (sheets state) of
              [] \<Rightarrow> ''''
            | first # _ \<Rightarrow> sheetId first)
      else activeSheetId state)"
  by (simp add: Let_def firstSheetIdOrEmpty_def split: list.splits)

text \<open>
  The two cases of the specification: of the sheets \<open>sheet-1\<close> (active) and \<open>sheet-2\<close>,
  removing \<open>sheet-1\<close> makes \<open>sheet-2\<close> active; removing the only sheet leaves no sheet and
  the empty string as active sheet id.
\<close>

theorem removeSheet_reassigns_active_witness:
  "activeSheetId (documentReducer ''t2''
     (documentReducer ''t1'' initialDocument (ADD_SHEET secondSheet))
     (REMOVE_SHEET ''sheet-1'')) = ''sheet-2'' \<and>
   activeSheetId (documentReducer ''t1'' initialDocument (REMOVE_SHEET ''sheet-1'')) = '''' \<and>
   sheets (documentReducer ''t1'' initialDocument (REMOVE_SHEET ''sheet-1'')) = []"
  using removeSheet_reassigns_active [of "''t2''"
      "documentReducer ''t1'' initialDocument (ADD_SHEET secondSheet)" "''sheet-1''"]
    removeSheet_reassigns_active [of "''t1''" initialDocument "''sheet-1''"]
  by (simp add: initialDocument_def createInitialState_def secondSheet_def)

subsection \<open>Updating a cell\<close>

text \<open>
  Claim C5. \<^verbatim>\<open>UPDATE_CELL\<close> merges. On every sheet with the payload's sheet id, the cell
  at the payload's key is afterwards the previous cell (the empty cell if there was none)
  with exactly the properties of the payload overwritten: each property is the previous
  one where the payload does not have it, and the payload's where it has, also when the
  payload holds \<^verbatim>\<open>undefined\<close> there. Every other cell of the sheet, and everything of the
  sheet besides its cells, is unchanged.
\<close>

theorem updateCell_merges:
  assumes "i < length (sheets state)" and "sheetId (sheets state ! i) = sid"
  shows "let before = sheets state ! i;
             after = sheets (documentReducer now state (UPDATE_CELL sid cellKey data)) ! i;
             old = (case cells before cellKey of None \<Rightarrow> emptyCell | Some c \<Rightarrow> c)
         in (\<exists>new. cells after cellKey = Some new \<and>
               cell_value new =
                 (case p_cell_value data of
                    Absent \<Rightarrow> cell_value old | Undefined \<Rightarrow> None | Value v \<Rightarrow> Some v) \<and>
               formula new =
                 (case p_formula data of
                    Absent \<Rightarrow> formula old | Undefined \<Rightarrow> None | Value v \<Rightarrow> Some v) \<and>
               cell_type new =
                 (case p_cell_type data of
                    Absent \<Rightarrow> cell_type old | Undefined \<Rightarrow> None | Value v \<Rightarrow> Some v) \<and>
               style new =
                 (case p_style data of
                    Absent \<Rightarrow> style old | Undefined \<Rightarrow> None | Value v \<Rightarrow> Some v) \<and>
               comment new =
                 (case p_comment data of
                    Absent \<Rightarrow> comment old | Undefined \<Rightarrow> None | Value v \<Rightarrow> Some v) \<and>
               hyperlink new =
                 (case p_hyperlink data of
                    Absent \<Rightarrow> hyperlink old | Undefined \<Rightarrow> None | Value v \<Rightarrow> Some v) \<and>
               validation new =
                 (case p_validation data of
                    Absent \<Rightarrow> validation old | Undefined \<Rightarrow> None | Value v \<Rightarrow> Some v) \<and>
               mergedWith new =
                 (case p_mergedWith data of
                    Absent \<Rightarrow> mergedWith old | Undefined \<Rightarrow> None | Value v \<Rightarrow> Some v) \<and>
               isMergeParent new =
                 (case p_isMergeParent data of
                    Absent \<Rightarrow> isMergeParent old | Undefined \<Rightarrow> None | Value v \<Rightarrow> Some v) \<and>
               mergeSpan new =
                 (case p_mergeSpan data of
                    Absent \<Rightarrow> mergeSpan old | Undefined \<Rightarrow> None | Value v \<Rightarrow> Some v) \<and>
               locked new =
                 (case p_locked data of
                    Absent \<Rightarrow> locked old | Undefined \<Rightarrow> None | Value v \<Rightarrow> Some v) \<and>
               hidden new =
                 (case p_hidden data of
                    Absent \<Rightarrow> hidden old | Undefined \<Rightarrow> None | Value v \<Rightarrow> Some v) \<and>
               sparkline new =
                 (case p_sparkline data of
                    Absent \<Rightarrow> sparkline old | Undefined \<Rightarrow> None | Value v \<Rightarrow> Some v)) \<and>
            (\<forall>other. other \<noteq> cellKey \<longrightarrow> cells after other = cells before other) \<and>
            after\<lparr>cells := cells before\<rparr> = before"
  using assms
  by (simp add: nth_sheets_onSheet Let_def spreadCell_def spread_def cellOrEmpty_def)

text \<open>
  The specification's case: \<^verbatim>\<open>{ value: "x", style: { bold: true } }\<close> updated with
  \<^verbatim>\<open>{ value: "y" }\<close> is \<^verbatim>\<open>{ value: "y", style: { bold: true } }\<close>, and B1 stays empty.
  Updated with \<^verbatim>\<open>{ value: "y", style: undefined }\<close> the cell has the value and no style.
\<close>

theorem updateCell_merges_witness:
  "cells (sheets styledDocument ! 0) ''A1'' =
     Some (emptyCell\<lparr>cell_value := Some (V_string ''x''),
       style := Some (emptyStyle\<lparr>bold := Some True\<rparr>)\<rparr>) \<and>
   cells (sheets (documentReducer ''2024-01-01T00:00:05.000Z'' styledDocument
       (UPDATE_CELL ''sheet-1'' ''A1'' (noCellData\<lparr>p_cell_value := Value (V_string ''y'')\<rparr>))) ! 0)
     ''A1'' =
     Some (emptyCell\<lparr>cell_value := Some (V_string ''y''),
       style := Some (emptyStyle\<lparr>bold := Some True\<rparr>)\<rparr>) \<and>
   cells (sheets (documentReducer ''2024-01-01T00:00:05.000Z'' styledDocument
       (UPDATE_CELL ''sheet-1'' ''A1'' (noCellData\<lparr>p_cell_value := Value (V_string ''y'')\<rparr>))) ! 0)
     ''B1'' = None \<and>
   cells (sheets (documentReducer ''2024-01-01T00:00:05.000Z'' styledDocument
       (UPDATE_CELL ''sheet-1'' ''A1''
          (noCellData\<lparr>p_cell_value := Value (V_string ''y''), p_style := Undefined\<rparr>))) ! 0)
     ''A1'' =
     Some (emptyCell\<lparr>cell_value := Some (V_string ''y'')\<rparr>)"
proof -
  have defs: "sheets styledDocument = [(hd (sheets initialDocument))\<lparr>cells :=
      [''A1'' \<mapsto> emptyCell\<lparr>cell_value := Some (V_string ''x''),
         style := Some (emptyStyle\<lparr>bold := Some True\<rparr>)\<rparr>]\<rparr>]"
    by (simp add: styledDocument_def initialDocument_def createInitialState_def onSheet_def
        spreadCell_def spread_def cellOrEmpty_def emptyCell_def noCellData_def fun_eq_iff)
  have i: "0 < length (sheets styledDocument)"
    and sid: "sheetId (sheets styledDocument ! 0) = ''sheet-1''"
    by (simp_all add: defs initialDocument_def createInitialState_def)
  show ?thesis
    using updateCell_merges [OF i sid, where now = "''2024-01-01T00:00:05.000Z''"
        and cellKey = "''A1''" and data = "noCellData\<lparr>p_cell_value := Value (V_string ''y'')\<rparr>"]
      updateCell_merges [OF i sid, where now = "''2024-01-01T00:00:05.000Z''"
        and cellKey = "''A1''"
        and data = "noCellData\<lparr>p_cell_value := Value (V_string ''y''), p_style := Undefined\<rparr>"]
    by (simp add: defs Let_def onSheet_def spreadCell_def spread_def cellOrEmpty_def emptyCell_def
        noCellData_def initialDocument_def createInitialState_def)
qed

subsection \<open>Locks\<close>





subsection \<open>Protecting a sheet\<close>

text \<open>
  Claim C10. \<^verbatim>\<open>PROTECT_SHEET\<close> overwrites the stored password of every sheet with the
  payload's sheet id by the payload's password, whatever was stored: dispatched without
  a password, directly or through \<open>protectSheet\<close>, it leaves the sheet without one.
\<close>

theorem protectSheet_overwrites_password:
  assumes "i < length (sheets state)" and "sheetId (sheets state ! i) = sid"
  shows "protectionPassword (sheets (documentReducer now state (PROTECT_SHEET sid isProtected password)) ! i)
       = password \<and>
     protectionPassword (sheets (protectSheet now state sid isProtected None) ! i) = None \<and>
     protected (sheets (protectSheet now state sid isProtected password) ! i) = Some isProtected"
  using assms
  by (simp add: protectSheet_def nth_sheets_onSheet)

text \<open>
  A sheet that stores a password loses it when it is protected again, or unprotected,
  without a password.
\<close>

theorem protectSheet_overwrites_password_witness:
  "protectionPassword (sheets protectedDocument ! 0) = Some ''5e884898da28'' \<and>
   protectionPassword (sheets (protectSheet ''2024-01-01T00:00:09.000Z'' protectedDocument
     ''sheet-1'' True None) ! 0) = None \<and>
   protectionPassword (sheets (documentReducer ''2024-01-01T00:00:09.000Z'' protectedDocument
     (PROTECT_SHEET ''sheet-1'' False None)) ! 0) = None"
proof -
  have stored: "protectionPassword (sheets protectedDocument ! 0) = Some ''5e884898da28''"
    and i: "0 < length (sheets protectedDocument)"
    and sid: "sheetId (sheets protectedDocument ! 0) = ''sheet-1''"
    by (simp_all add: protectedDocument_def initialDocument_def createInitialState_def onSheet_def)
  show ?thesis
    using stored
      protectSheet_overwrites_password [OF i sid, of "''2024-01-01T00:00:09.000Z''" True None]
      protectSheet_overwrites_password [OF i sid, of "''2024-01-01T00:00:09.000Z''" False None]
    by simp
qed

subsection \<open>Actions that miss their target\<close>

lemma onSheet_noSheet: "noSheet state sid \<Longrightarrow> onSheet now state sid change = touched now state"
  by (rule onSheet_unchanged) (simp add: noSheet_def list_all_iff)

lemma onSheet_noEntity:
  assumes "noEntity state sid ids wanted"
    and "\<And>sheet. Some wanted \<notin> set (ids sheet) \<Longrightarrow> change sheet = sheet"
  shows "onSheet now state sid change = touched now state"
proof (rule onSheet_unchanged)
  fix sheet
  assume "sheet \<in> set (sheets state)" and "sheetId sheet = sid"
  with assms(1) have "Some wanted \<notin> set (ids sheet)"
    by (auto simp: noEntity_def list_all_iff)
  then show "change sheet = sheet"
    by (rule assms(2))
qed

lemma map_if_absent:
  "Some wanted \<notin> set (map key xs) \<Longrightarrow> map (\<lambda>x. if key x = Some wanted then f x else x) xs = xs"
  by (induction xs) auto

lemma filter_absent:
  "Some wanted \<notin> set (map key xs) \<Longrightarrow> filter (\<lambda>x. key x \<noteq> Some wanted) xs = xs"
  by (induction xs) auto

lemma filter_absent_plain:
  "Some wanted \<notin> set (map (\<lambda>x. Some (key x)) xs) \<Longrightarrow> filter (\<lambda>x. key x \<noteq> wanted) xs = xs"
  by (induction xs) auto

lemma removeSheet_noSheet:
  "noSheet state sid \<Longrightarrow>
     documentReducer now state (REMOVE_SHEET sid) = afterMissingTarget now state (REMOVE_SHEET sid)"
proof -
  assume "noSheet state sid"
  then have "filter (\<lambda>sheet. sheetId sheet \<noteq> sid) (sheets state) = sheets state"
    by (simp add: noSheet_def list_all_iff)
  then show ?thesis
    by (simp add: Let_def)
qed

text \<open>
  Claim C7, as the reducer has it. An update or remove action whose sheet id matches no
  sheet, or whose entity id (image, chart, shape, conditional format) matches no entity
  of the sheets with its sheet id, changes no sheet, no cell and no entity, and the
  reducer returns a value for it (it is a total function: nothing is thrown). The state
  it returns is the given state with \<open>updatedAt\<close> set to the time of the action;
  \<^verbatim>\<open>REMOVE_SHEET\<close> also writes the sheet count and reassigns an active sheet id equal to
  its payload; the shape actions, which the reducer does not handle, return the given
  state itself.
\<close>

theorem missingTarget_touches_only_metadata:
  assumes "missingTarget state action"
  shows "documentReducer now state action = afterMissingTarget now state action"
proof (cases action)
  case (REMOVE_SHEET sid)
  with assms show ?thesis
    by (simp only: missingTarget.simps removeSheet_noSheet)
next
  case (UPDATE_IMAGE sid imageId updates)
  with assms have "noEntity state sid (\<lambda>sheet. map image_id (images sheet)) imageId"
    by simp
  then have "onSheet now state sid (\<lambda>sheet. sheet\<lparr>images :=
      map (\<lambda>img. if image_id img = Some imageId then spreadImage img updates else img) (images sheet)\<rparr>)
      = touched now state"
    by (rule onSheet_noEntity) (simp add: map_if_absent)
  with UPDATE_IMAGE show ?thesis by simp
next
  case (REMOVE_IMAGE sid imageId)
  with assms have "noEntity state sid (\<lambda>sheet. map image_id (images sheet)) imageId"
    by simp
  then have "onSheet now state sid (\<lambda>sheet. sheet\<lparr>images :=
      filter (\<lambda>img. image_id img \<noteq> Some imageId) (images sheet)\<rparr>) = touched now state"
    by (rule onSheet_noEntity) (simp add: filter_absent)
  with REMOVE_IMAGE show ?thesis by simp
next
  case (UPDATE_CHART sid chartId updates)
  with assms have "noEntity state sid (\<lambda>sheet. map chart_id (charts sheet)) chartId"
    by simp
  then have "onSheet now state sid (\<lambda>sheet. sheet\<lparr>charts :=
      map (\<lambda>chart. if chart_id chart = Some chartId then spreadChart chart updates else chart) (charts sheet)\<rparr>)
      = touched now state"
    by (rule onSheet_noEntity) (simp add: map_if_absent)
  with UPDATE_CHART show ?thesis by simp
next
  case (REMOVE_CHART sid chartId)
  with assms have "noEntity state sid (\<lambda>sheet. map chart_id (charts sheet)) chartId"
    by simp
  then have "onSheet now state sid (\<lambda>sheet. sheet\<lparr>charts :=
      filter (\<lambda>chart. chart_id chart \<noteq> Some chartId) (charts sheet)\<rparr>) = touched now state"
    by (rule onSheet_noEntity) (simp add: filter_absent)
  with REMOVE_CHART show ?thesis by simp
next
  case (REMOVE_CONDITIONAL_FORMAT sid formatId)
  with assms have "noEntity state sid
      (\<lambda>sheet. map (\<lambda>cf. Some (format_id cf)) (conditionalFormatting sheet)) formatId"
    by simp
  then have "onSheet now state sid (\<lambda>sheet. sheet\<lparr>conditionalFormatting :=
      filter (\<lambda>cf. format_id cf \<noteq> formatId) (conditionalFormatting sheet)\<rparr>) = touched now state"
    by (rule onSheet_noEntity) (simp add: filter_absent_plain)
  with REMOVE_CONDITIONAL_FORMAT show ?thesis by simp
qed (use assms in \<open>simp_all add: onSheet_noSheet\<close>)

text \<open>
  The initial document has no sheet \<^verbatim>\<open>sheet-9\<close> and no image \<^verbatim>\<open>image-1\<close>: both updates
  return the document with nothing but the time of the update changed.
\<close>

theorem missingTarget_touches_only_metadata_witness:
  "missingTarget initialDocument (UPDATE_CELL ''sheet-9'' ''A1'' noCellData) \<and>
   documentReducer ''2024-01-01T00:00:07.000Z'' initialDocument (UPDATE_CELL ''sheet-9'' ''A1'' noCellData) =
     initialDocument\<lparr>metadata := (metadata initialDocument)\<lparr>updatedAt := Some ''2024-01-01T00:00:07.000Z''\<rparr>\<rparr> \<and>
   missingTarget initialDocument (UPDATE_IMAGE ''sheet-1'' ''image-1'' noImageUpdates) \<and>
   documentReducer ''2024-01-01T00:00:07.000Z'' initialDocument
       (UPDATE_IMAGE ''sheet-1'' ''image-1'' noImageUpdates) =
     initialDocument\<lparr>metadata := (metadata initialDocument)\<lparr>updatedAt := Some ''2024-01-01T00:00:07.000Z''\<rparr>\<rparr>"
proof -
  have a: "missingTarget initialDocument (UPDATE_CELL ''sheet-9'' ''A1'' noCellData)"
    and b: "missingTarget initialDocument (UPDATE_IMAGE ''sheet-1'' ''image-1'' noImageUpdates)"
    by (simp_all add: noSheet_def noEntity_def initialDocument_def createInitialState_def)
  show ?thesis
    using a b missingTarget_touches_only_metadata [OF a, of "''2024-01-01T00:00:07.000Z''"]
      missingTarget_touches_only_metadata [OF b, of "''2024-01-01T00:00:07.000Z''"]
    by (simp add: touched_def)
qed

text \<open>
  Against the claim as worded: the same update of a missing sheet does not return the
  state it was given, since the time of the update is written.
\<close>

theorem missingTarget_not_identity:
  "missingTarget initialDocument (UPDATE_IMAGE ''sheet-9'' ''image-1'' noImageUpdates) \<and>
   documentReducer ''2024-01-01T00:00:07.000Z'' initialDocument
       (UPDATE_IMAGE ''sheet-9'' ''image-1'' noImageUpdates) \<noteq> initialDocument"
proof -
  have "updatedAt (metadata (documentReducer ''2024-01-01T00:00:07.000Z'' initialDocument
       (UPDATE_IMAGE ''sheet-9'' ''image-1'' noImageUpdates))) = Some ''2024-01-01T00:00:07.000Z''"
    by (simp add: onSheet_def)
  moreover have "updatedAt (metadata initialDocument) = Some ''2024-01-01T00:00:00.000Z''"
    by (simp add: initialDocument_def createInitialState_def)
  ultimately have "documentReducer ''2024-01-01T00:00:07.000Z'' initialDocument
       (UPDATE_IMAGE ''sheet-9'' ''image-1'' noImageUpdates) \<noteq> initialDocument"
    by auto
  moreover have "missingTarget initialDocument (UPDATE_IMAGE ''sheet-9'' ''image-1'' noImageUpdates)"
    by (simp add: noEntity_def initialDocument_def createInitialState_def)
  ultimately show ?thesis by simp
qed

subsection \<open>The active sheet\<close>

lemma activeSheetValid_onSheet:
  assumes "\<And>sheet. sheetId (change sheet) = sheetId sheet"
  shows "activeSheetValid (onSheet now state sid change) = activeSheetValid state"
proof -
  have "map sheetId (sheets (onSheet now state sid change)) = map sheetId (sheets state)"
    by (simp add: onSheet_def assms)
  then show ?thesis
    unfolding activeSheetValid_def activeSheetId_onSheet
    by (simp add: onSheet_def)
qed

lemma activeSheetValid_removeSheet:
  assumes "activeSheetValid state"
  shows "activeSheetValid (documentReducer now state (REMOVE_SHEET sid))"
proof (cases "filter (\<lambda>sheet. sheetId sheet \<noteq> sid) (sheets state)")
  case Nil
  then show ?thesis
    by (simp add: activeSheetValid_def Let_def)
next
  case (Cons first others)
  show ?thesis
  proof (cases "activeSheetId state = sid")
    case True
    with Cons show ?thesis
      by (simp add: activeSheetValid_def Let_def firstSheetIdOrEmpty_def)
  next
    case False
    from Cons have "sheets state \<noteq> []"
      by auto
    with assms have "activeSheetId state \<in> sheetId ` set (sheets state)"
      by (simp add: activeSheetValid_def)
    with False have "activeSheetId state \<in> sheetId ` set (filter (\<lambda>sheet. sheetId sheet \<noteq> sid) (sheets state))"
      by auto
    with False show ?thesis
      by (simp add: activeSheetValid_def Let_def)
  qed
qed

lemma activeSheetValid_step:
  assumes "activeSheetValid state" and "keepsActiveSheet state action"
  shows "activeSheetValid (documentReducer now state action)"
proof (cases action)
  case (REMOVE_SHEET sid)
  with assms(1) show ?thesis
    by (simp only: activeSheetValid_removeSheet)
next
  case (ADD_SHEET payload)
  with assms show ?thesis
    by (auto simp: activeSheetValid_def)
next
  case (SET_ACTIVE_SHEET payload)
  with assms show ?thesis
    by (auto simp: activeSheetValid_def)
next
  case (UPDATE_METADATA payload)
  with assms show ?thesis
    by (simp add: activeSheetValid_def)
qed (use assms in \<open>simp_all add: activeSheetValid_onSheet\<close>)

lemma activeSheetValid_dispatchAll:
  assumes "activeSheetValid state" and "admissible state actions" and "k \<le> length actions"
  shows "activeSheetValid (dispatchAll state (take k actions))"
  using assms
proof (induction actions arbitrary: state k)
  case Nil
  then show ?case by simp
next
  case (Cons step rest)
  obtain now action where step: "step = (now, action)"
    by (cases step)
  show ?case
  proof (cases k)
    case 0
    with Cons.prems(1) show ?thesis by simp
  next
    case (Suc j)
    from Cons.prems(2) step have keeps: "keepsActiveSheet state action"
      and rest: "admissible (documentReducer now state action) rest"
      by simp_all
    from Cons.prems(1) keeps have valid: "activeSheetValid (documentReducer now state action)"
      by (rule activeSheetValid_step)
    from Cons.prems(3) Suc have "j \<le> length rest"
      by simp
    with valid rest have "activeSheetValid (dispatchAll (documentReducer now state action) (take j rest))"
      by (intro Cons.IH)
    with step Suc show ?thesis by simp
  qed
qed

lemma activeSheetValid_initial: "activeSheetValid (createInitialState now ms1 ms2)"
  by (simp add: activeSheetValid_def createInitialState_def)

text \<open>
  Claim C8, as the reducer has it. In every state reached from the initial state by
  actions of which each \<^verbatim>\<open>SET_ACTIVE_SHEET\<close> names an existing sheet, each document put in
  place by \<^verbatim>\<open>SET_DOCUMENT\<close> or \<^verbatim>\<open>RESTORE_FROM_IPFS\<close> has a valid active sheet id itself,
  and no \<^verbatim>\<open>ADD_SHEET\<close> is applied to a document without sheets, the active sheet id is the
  id of one of the sheets whenever there is a sheet; this holds after every action of the
  sequence.
\<close>

theorem activeSheet_invariant_guarded:
  assumes "admissible (createInitialState now ms1 ms2) actions" and "k \<le> length actions"
  shows "activeSheetValid (dispatchAll (createInitialState now ms1 ms2) (take k actions))"
  using activeSheetValid_initial assms by (rule activeSheetValid_dispatchAll)

text \<open>
  A second sheet is added, made active and removed again: the sequence is admissible,
  and the active sheet falls back to the first sheet.
\<close>

theorem activeSheet_invariant_guarded_witness:
  "admissible initialDocument
     [(''t1'', ADD_SHEET secondSheet), (''t2'', SET_ACTIVE_SHEET ''sheet-2''),
      (''t3'', REMOVE_SHEET ''sheet-2'')] \<and>
   activeSheetValid (dispatchAll initialDocument
     [(''t1'', ADD_SHEET secondSheet), (''t2'', SET_ACTIVE_SHEET ''sheet-2''),
      (''t3'', REMOVE_SHEET ''sheet-2'')]) \<and>
   activeSheetId (dispatchAll initialDocument
     [(''t1'', ADD_SHEET secondSheet), (''t2'', SET_ACTIVE_SHEET ''sheet-2'')]) = ''sheet-2'' \<and>
   activeSheetId (dispatchAll initialDocument
     [(''t1'', ADD_SHEET secondSheet), (''t2'', SET_ACTIVE_SHEET ''sheet-2''),
      (''t3'', REMOVE_SHEET ''sheet-2'')]) = ''sheet-1''"
proof -
  let ?actions = "[(''t1'', ADD_SHEET secondSheet), (''t2'', SET_ACTIVE_SHEET ''sheet-2''),
      (''t3'', REMOVE_SHEET ''sheet-2'')]"
  have adm: "admissible (createInitialState ''2024-01-01T00:00:00.000Z'' ''1704067200000''
      ''1704067200000'') ?actions"
    by (simp add: createInitialState_def secondSheet_def initialDocument_def)
  have len: "3 \<le> length ?actions"
    by simp
  show ?thesis
    using adm activeSheet_invariant_guarded [OF adm len]
    by (simp add: initialDocument_def createInitialState_def secondSheet_def Let_def
        firstSheetIdOrEmpty_def)
qed

text \<open>
  Against the claim as worded: one \<^verbatim>\<open>SET_ACTIVE_SHEET\<close> with an id that no sheet has takes
  the initial document to a state with a sheet and an active sheet id that names none.
\<close>

theorem activeSheet_invariant_broken:
  "\<not> activeSheetValid (documentReducer ''2024-01-01T00:00:03.000Z''
      (createInitialState ''2024-01-01T00:00:00.000Z'' ''1704067200000'' ''1704067200000'')
      (SET_ACTIVE_SHEET ''sheet-9''))"
  by (simp add: activeSheetValid_def createInitialState_def)

text \<open>
  So does an \<^verbatim>\<open>ADD_SHEET\<close> to a document whose only sheet was removed: the active sheet
  id stays the empty string.
\<close>

lemma addSheet_to_empty_document_keeps_active_id:
  "\<not> activeSheetValid (dispatchAll initialDocument
      [(''t1'', REMOVE_SHEET ''sheet-1''), (''t2'', ADD_SHEET secondSheet)])"
  by (simp add: activeSheetValid_def initialDocument_def createInitialState_def secondSheet_def
      Let_def firstSheetIdOrEmpty_def)

section \<open>Properties of saving and loading\<close>

text \<open>
  Claim C1. With the storage as the specification describes it, and answering: saving
  a document \<open>S\<close> returns the content identifier of \<open>S\<close>, and loading that identifier
  afterwards puts exactly \<open>S\<close> in place as the document, every field as it was when the
  save began. (The document held between the two is \<open>S\<close> with the version entry of the
  save appended; the stored one is \<open>S\<close>.)
\<close>

theorem save_then_load_restores:
  assumes "reachable ipfs"
  shows "case saveToIPFS (uploadDocumentToIPFS contentId) t_payload t_version t_reduce (state, ipfs) of
       (saved, provider) \<Rightarrow>
         saved = Inr (contentId state) \<and>
         loadFromIPFS loadDocumentFromIPFS t_load (contentId state) provider =
           (Inr (), state, snd provider)"
  using assms
  by (simp add: saveToIPFS_def loadFromIPFS_def uploadDocumentToIPFS_def loadDocumentFromIPFS_def
      Let_def)

text \<open>
  The document with the styled cell, saved to an empty storage and loaded again: the save
  records its version entry, the load gives the document back.
\<close>

theorem save_then_load_restores_witness:
  "reachable emptyStorage \<and>
   fst (saveToIPFS (uploadDocumentToIPFS exampleContentId) ''t1'' ''t2'' ''t3''
      (styledDocument, emptyStorage)) =
     Inr ''cid-doc-1704067200000-2024-01-01T00:00:01.000Z'' \<and>
   versionHistory (fst (snd (saveToIPFS (uploadDocumentToIPFS exampleContentId) ''t1'' ''t2'' ''t3''
      (styledDocument, emptyStorage)))) =
     Some [\<lparr>cid = ''cid-doc-1704067200000-2024-01-01T00:00:01.000Z'', timestamp = ''t2'',
       author = Some ''anonymous'', description = None\<rparr>] \<and>
   fst (snd (loadFromIPFS loadDocumentFromIPFS ''t4'' ''cid-doc-1704067200000-2024-01-01T00:00:01.000Z''
      (snd (saveToIPFS (uploadDocumentToIPFS exampleContentId) ''t1'' ''t2'' ''t3''
         (styledDocument, emptyStorage))))) = styledDocument"
proof -
  have r: "reachable emptyStorage"
    by (simp add: emptyStorage_def)
  have c: "exampleContentId styledDocument = ''cid-doc-1704067200000-2024-01-01T00:00:01.000Z''"
    by (simp add: exampleContentId_def styledDocument_def initialDocument_def
        createInitialState_def onSheet_def)
  have h: "versionHistory styledDocument = Some []" "owner (metadata styledDocument) = Some ''anonymous''"
    by (simp_all add: styledDocument_def initialDocument_def createInitialState_def onSheet_def)
  show ?thesis
    using r save_then_load_restores [OF r, where contentId = exampleContentId
        and state = styledDocument and t_payload = "''t1''" and t_version = "''t2''"
        and t_reduce = "''t3''" and t_load = "''t4''"]
    by (simp add: c h saveToIPFS_def uploadDocumentToIPFS_def emptyStorage_def Let_def
        split: prod.splits)
qed

text \<open>
  Claim C2. When the upload fails, \<open>saveToIPFS\<close> fails with the same error and the document
  is the one it was before: no field is changed and no version entry appended. This
  holds for every upload function.
\<close>

theorem failed_save_leaves_state:
  assumes "upload state world = (Inl err, world')"
  shows "saveToIPFS upload t_payload t_version t_reduce (state, world) = (Inl err, state, world')"
  using assms by (simp add: saveToIPFS_def)

text \<open>A save to the storage that does not answer.\<close>

theorem failed_save_leaves_state_witness:
  "uploadDocumentToIPFS exampleContentId styledDocument offlineStorage =
     (Inl (Error ''network error''), offlineStorage) \<and>
   saveToIPFS (uploadDocumentToIPFS exampleContentId) ''t1'' ''t2'' ''t3''
     (styledDocument, offlineStorage) =
     (Inl (Error ''network error''), styledDocument, offlineStorage)"
proof -
  have f: "uploadDocumentToIPFS exampleContentId styledDocument offlineStorage =
     (Inl (Error ''network error''), offlineStorage)"
    by (simp add: uploadDocumentToIPFS_def offlineStorage_def)
  show ?thesis
    using f failed_save_leaves_state [where upload = "uploadDocumentToIPFS exampleContentId"
        and state = styledDocument and world = offlineStorage and t_payload = "''t1''"
        and t_version = "''t2''" and t_reduce = "''t3''", OF f]
    by simp
qed


end
